theory Spec2Isabelle
  imports Complex_Main "HOL-Library.Sublist"
begin

section \<open>Common conventions\<close>

text \<open>
  A JavaScript \<^verbatim>\<open>number\<close> is modelled by an exact rational; the values \<^verbatim>\<open>undefined\<close>,
  \<^verbatim>\<open>null\<close> and \<^verbatim>\<open>NaN\<close> of an optional numeric field are \<open>None\<close>.  Rounding of
  IEEE doubles and the infinities are outside the model.  A JavaScript string is a
  \<open>string\<close>; an optional string field is a \<open>string option\<close>.
\<close>

type_synonym number = rat

section \<open>Transcode decisions (packages/ffmpeg/src/ffmpeg-hwenc.ts)\<close>

subsection \<open>Target bitrate\<close>

text \<open>
  \<^verbatim>\<open>capBitrate\<close>: the guard \<^verbatim>\<open>if (!inputBitrate) return targetBitrate\<close> is taken by an
  absent input bitrate and by the number 0; otherwise the target is capped by the
  input bitrate plus 30 percent.
\<close>

definition capBitrate :: "number option \<Rightarrow> number \<Rightarrow> number" where
  "capBitrate inputBitrate targetBitrate =
     (case inputBitrate of
        None \<Rightarrow> targetBitrate
      | Some b \<Rightarrow>
          if b = 0 then targetBitrate
          else (let inputBitrateWithMargin = b + (b * (3 / 10))
                in min targetBitrate inputBitrateWithMargin))"

text \<open>
  \<^verbatim>\<open>getTargetBitrate\<close>.  The theoretical bitrate functions are imported from
  \<^verbatim>\<open>@peertube/peertube-core-utils\<close>, which is not part of the sources at hand: they
  are the parameters \<open>getAverageTheoreticalBitrate\<close> and \<open>getMinTheoreticalBitrate\<close>,
  functions of resolution, fps and ratio.
\<close>

definition getTargetBitrate ::
  "(number \<Rightarrow> number \<Rightarrow> number \<Rightarrow> number) \<Rightarrow> (number \<Rightarrow> number \<Rightarrow> number \<Rightarrow> number) \<Rightarrow>
   number option \<Rightarrow> number \<Rightarrow> number \<Rightarrow> number \<Rightarrow> number" where
  "getTargetBitrate getAverageTheoreticalBitrate getMinTheoreticalBitrate
       inputBitrate resolution ratio fps =
     (let capped = capBitrate inputBitrate (getAverageTheoreticalBitrate resolution fps ratio);
          limit = getMinTheoreticalBitrate resolution fps ratio
      in max limit capped)"

subsection \<open>Quick transcode verdicts\<close>

text \<open>
  The fields of an ffprobe stream that the verdicts read.  \<^verbatim>\<open>getAudioStream\<close> (not in
  the sources at hand) yields the audio stream, if any, and its bitrate.
\<close>

record ffprobe_stream =
  codec_name :: "string option"
  pix_fmt :: "string option"
  channel_layout :: "string option"

record parsed_audio =
  audioStream :: "ffprobe_stream option"
  bitrate :: "number option"

text \<open>
  \<^verbatim>\<open>canDoQuickAudioTranscode\<close>, on the awaited result of \<^verbatim>\<open>getAudioStream\<close>.
  \<^verbatim>\<open>getMaxAudioBitrate\<close> is imported from \<^verbatim>\<open>@peertube/peertube-ffmpeg\<close> and is a
  parameter; it answers \<open>-1\<close> when it defines no maximum.  \<^verbatim>\<open>!audioBitrate\<close> holds for
  an absent bitrate and for 0, \<^verbatim>\<open>!channelLayout\<close> for an absent and for an empty layout.
\<close>

definition canDoQuickAudioTranscode ::
  "(string \<Rightarrow> number \<Rightarrow> number) \<Rightarrow> parsed_audio \<Rightarrow> bool" where
  "canDoQuickAudioTranscode getMaxAudioBitrate parsedAudio =
     (case audioStream parsedAudio of
        None \<Rightarrow> True
      | Some s \<Rightarrow>
          if codec_name s \<noteq> Some ''aac'' then False
          else (case bitrate parsedAudio of
                  None \<Rightarrow> False
                | Some audioBitrate \<Rightarrow>
                    if audioBitrate = 0 then False
                    else (let maxAudioBitrate = getMaxAudioBitrate ''aac'' audioBitrate in
                          if maxAudioBitrate \<noteq> - 1 \<and> audioBitrate > maxAudioBitrate then False
                          else (case channel_layout s of
                                  None \<Rightarrow> False
                                | Some channelLayout \<Rightarrow>
                                    if channelLayout = [] \<or> channelLayout = ''unknown''
                                       \<or> channelLayout = ''quad''
                                    then False
                                    else True))))"

text \<open>
  \<^verbatim>\<open>canDoQuickVideoTranscode\<close>, on the awaited results of \<^verbatim>\<open>getVideoStream\<close>,
  \<^verbatim>\<open>getVideoStreamFPS\<close>, \<^verbatim>\<open>getVideoStreamBitrate\<close> and
  \<^verbatim>\<open>getVideoStreamDimensionsInfo\<close>.  \<^verbatim>\<open>getMaxTheoreticalBitrate\<close> is a parameter; it
  receives the dimensions and the fps.
\<close>

definition canDoQuickVideoTranscode ::
  "('d \<Rightarrow> number \<Rightarrow> number) \<Rightarrow> ffprobe_stream option \<Rightarrow> number \<Rightarrow> number option \<Rightarrow> 'd \<Rightarrow> bool" where
  "canDoQuickVideoTranscode getMaxTheoreticalBitrate videoStream fps bitRate resolutionData =
     (case bitRate of
        None \<Rightarrow> False
      | Some b \<Rightarrow>
          if b = 0 then False
          else (case videoStream of
                  None \<Rightarrow> False
                | Some v \<Rightarrow>
                    if codec_name v \<noteq> Some ''h264'' then False
                    else if pix_fmt v \<noteq> Some ''yuv420p'' then False
                    else if fps < 2 \<or> fps > 65 then False
                    else if b > getMaxTheoreticalBitrate resolutionData fps then False
                    else True))"

section \<open>Format selection (server/helpers/youtube-dl/youtube-dl-cli.ts)\<close>

text \<open>
  A \<^verbatim>\<open>VideoResolution\<close> is a non-negative integer (the height in pixels).  The enum is
  declared in \<^verbatim>\<open>@shared/models\<close>, which is not part of the sources at hand.
\<close>

text \<open>Modelled from the spec: the constant \<^verbatim>\<open>VideoResolution.H_1080P\<close>, the fixed
  default "1080p" of the format negotiation.\<close>

definition H_1080P :: nat where
  "H_1080P = 1080"

text \<open>The decimal rendering of a resolution inside a template string.\<close>

definition digit :: "nat \<Rightarrow> char" where
  "digit d = ''0123456789'' ! d"

fun toString :: "nat \<Rightarrow> string" where
  "toString n = (if n < 10 then [digit n] else toString (n div 10) @ [digit (n mod 10)])"

declare toString.simps [simp del]

text \<open>
  \<^verbatim>\<open>Math.max(...xs)\<close> on a non-empty array.  On the empty array JavaScript answers
  \<^verbatim>\<open>-Infinity\<close>; the source calls it behind a test of the length, and the first
  equation is never used.
\<close>

fun Math_max :: "nat list \<Rightarrow> nat" where
  "Math_max [] = 0"
| "Math_max (x # xs) = fold max xs x"

text \<open>\<^verbatim>\<open>Array.prototype.join\<close>.\<close>

fun join :: "string \<Rightarrow> string list \<Rightarrow> string" where
  "join sep [] = []"
| "join sep [x] = x"
| "join sep (x # y # ys) = x @ sep @ join sep (y # ys)"

definition getYoutubeDLVideoFormat :: "nat list \<Rightarrow> bool \<Rightarrow> string" where
  "getYoutubeDLVideoFormat enabledResolutions useBestFormat =
     (let result =
            (if \<not> useBestFormat
             then (let resolution = (if length enabledResolutions = 0 then H_1080P
                                     else Math_max enabledResolutions)
                   in [''bestvideo[vcodec^=avc1][height='' @ toString resolution
                         @ '']+bestaudio[ext=m4a]'',
                       ''bestvideo[vcodec!*=av01][vcodec!*=vp9.2][height='' @ toString resolution
                         @ '']+bestaudio'',
                       ''bestvideo[vcodec^=avc1][height<='' @ toString resolution
                         @ '']+bestaudio[ext=m4a]''])
             else [])
      in join ''/''
           (result @
            [''bestvideo[vcodec!*=av01][vcodec!*=vp9.2]+bestaudio'',
             ''best[vcodec!*=av01][vcodec!*=vp9.2]'',
             ''bestvideo[ext=mp4]+bestaudio[ext=m4a]'',
             ''best'']))"

text \<open>
  Reading a chain back: its tiers are the maximal segments between the separators
  \<^verbatim>\<open>/\<close>.  A tier keeps AV1 and VP9 profile 2 out when it demands an \<^verbatim>\<open>avc1\<close> video
  codec, or carries both filters \<^verbatim>\<open>[vcodec!*=av01]\<close> and \<^verbatim>\<open>[vcodec!*=vp9.2]\<close>.
\<close>

fun split_on :: "char \<Rightarrow> string \<Rightarrow> string list" where
  "split_on c [] = [[]]"
| "split_on c (x # xs) =
     (if x = c then [] # split_on c xs
      else (case split_on c xs of
              [] \<Rightarrow> [[x]]
            | w # ws \<Rightarrow> (x # w) # ws))"

definition tiers :: "string \<Rightarrow> string list" where
  "tiers chain = split_on (CHR ''/'') chain"

definition excludes_av01_vp92 :: "string \<Rightarrow> bool" where
  "excludes_av01_vp92 tier \<longleftrightarrow>
     sublist ''[vcodec^=avc1]'' tier
     \<or> (sublist ''[vcodec!*=av01]'' tier \<and> sublist ''[vcodec!*=vp9.2]'' tier)"

section \<open>Playlist listing merge (server/helpers/youtube-dl/youtube-dl-cli.ts)\<close>

text \<open>
  The fields of a listing record that the merge reads and writes; every other field of
  the record travels in the extension part.
\<close>

record timestamps =
  timestamp :: "number option"
  release_timestamp :: "number option"

record listing = timestamps +
  webpage_url :: "string option"

text \<open>
  The body of the \<^verbatim>\<open>list.map\<close> callback of \<^verbatim>\<open>getListInfo\<close>: \<^verbatim>\<open>flatList.find\<close> yields
  the first flat record with the same \<^verbatim>\<open>webpage_url\<close>, and a comparison
  \<^verbatim>\<open>flatItem?.timestamp > 0\<close> with an absent operand is false.
\<close>

definition mergeItem ::
  "('a listing_scheme) list \<Rightarrow> 'b listing_scheme \<Rightarrow> 'b listing_scheme" where
  "mergeItem flatList item =
     (let flatItem = find (\<lambda>o'. webpage_url o' = webpage_url item) flatList;
          item1 = (case flatItem of
                     None \<Rightarrow> item
                   | Some f \<Rightarrow>
                       (case timestamp f of
                          None \<Rightarrow> item
                        | Some t \<Rightarrow> if t > 0 then item\<lparr>timestamp := Some t\<rparr> else item));
          item2 = (case flatItem of
                     None \<Rightarrow> item1
                   | Some f \<Rightarrow>
                       (case release_timestamp f of
                          None \<Rightarrow> item1
                        | Some t \<Rightarrow> if t > 0 then item1\<lparr>release_timestamp := Some t\<rparr>
                                    else item1))
      in item2)"

text \<open>
  The merge at the end of \<^verbatim>\<open>getListInfo\<close> (the statements after the two listing
  calls), for a flat pass and a detailed pass that both returned arrays.
\<close>

definition mergeLists ::
  "('b listing_scheme) list \<Rightarrow> ('a listing_scheme) list \<Rightarrow> ('b listing_scheme) list" where
  "mergeLists list flatList =
     (if length flatList > 0 then map (mergeItem flatList) list else list)"

section \<open>The extraction subprocess (server/helpers/youtube-dl/youtube-dl-cli.ts)\<close>

text \<open>
  The exceptions of the subsystem (youtube-dl-errors.ts), each with the arguments its
  constructor receives, the JavaScript errors \<^verbatim>\<open>TypeError\<close> and \<^verbatim>\<open>SyntaxError\<close>, a plain
  \<^verbatim>\<open>Error\<close> with its message, and \<open>Failure n\<close> for an error raised by a collaborator
  outside the sources at hand (the process library, persistence, the job queue).
\<close>

datatype exn =
    YoutubeDLCLIExecError string
  | YoutubeDLCLIRetCodeError int string
  | YoutubeDLCLICrashError string string
  | YoutubeDLNoInfoError string
  | YoutubeDLNoFormatsError "string option"
  | YoutubeDLIsLiveError "string option"
  | TypeError
  | SyntaxError
  | Error string
  | Failure nat

text \<open>The fields of the process result that \<^verbatim>\<open>run\<close> reads.\<close>

record execa_output =
  exitCode :: int
  stdout :: string
  stderr :: string

text \<open>
  \<^verbatim>\<open>String.prototype.trim\<close> removes white space and line terminators at both ends.  A
  \<open>char\<close> stands for a code unit below 256; among these the white space and line
  terminators of ECMAScript are TAB, LF, VT, FF, CR, SPACE and NBSP.
\<close>

definition isWhiteSpace :: "char \<Rightarrow> bool" where
  "isWhiteSpace c \<longleftrightarrow>
     c \<in> set [CHR 0x09, CHR 0x0A, CHR 0x0B, CHR 0x0C, CHR 0x0D, CHR 0x20, CHR 0xA0]"

definition trim :: "string \<Rightarrow> string" where
  "trim s = rev (dropWhile isWhiteSpace (rev (dropWhile isWhiteSpace s)))"

text \<open>
  \<^verbatim>\<open>s.split(/\r?\n/)\<close>: the string is cut at every LF, and a CR right before the LF
  belongs to the separator.  \<open>cur\<close> holds the characters of the current line, reversed.
\<close>

fun split_lines_from :: "string \<Rightarrow> string \<Rightarrow> string list" where
  "split_lines_from cur [] = [rev cur]"
| "split_lines_from cur [c] =
     (if c = CHR 0x0A then [rev cur, []] else [rev (c # cur)])"
| "split_lines_from cur (c # d # s) =
     (if c = CHR 0x0D \<and> d = CHR 0x0A then rev cur # split_lines_from [] s
      else if c = CHR 0x0A then rev cur # split_lines_from [] (d # s)
      else split_lines_from (c # cur) (d # s))"

definition split_lines :: "string \<Rightarrow> string list" where
  "split_lines s = split_lines_from [] s"

text \<open>
  \<^verbatim>\<open>run\<close>, from the point where the subprocess is awaited.  \<open>subProcess\<close> is what
  \<^verbatim>\<open>await subProcess\<close> gives: a rejection (\<open>Inl\<close>), no value (\<open>Inr None\<close>) or a
  process result.  The call of \<^verbatim>\<open>logger.debug\<close> reads \<^verbatim>\<open>output.command\<close> before the
  test \<^verbatim>\<open>if (!output)\<close>, so no value at all is a \<^verbatim>\<open>TypeError\<close>.  The answer is the
  array of lines, or \<^verbatim>\<open>undefined\<close> (\<open>None\<close>) for an empty \<^verbatim>\<open>stdout\<close>.  The argument
  wrapping (proxy, IPv4, ffmpeg location) and the timeout act on the subprocess and
  are part of \<open>subProcess\<close>.
\<close>

definition run :: "string \<Rightarrow> exn + execa_output option \<Rightarrow> exn + string list option" where
  "run url subProcess =
     (case subProcess of
        Inl e \<Rightarrow> Inl e
      | Inr None \<Rightarrow> Inl TypeError
      | Inr (Some output) \<Rightarrow>
          if exitCode output \<noteq> 0 then Inl (YoutubeDLCLIRetCodeError (exitCode output) url)
          else if length (stderr output) > 0 then Inl (YoutubeDLCLICrashError (stderr output) url)
          else if stdout output \<noteq> [] then Inr (Some (split_lines (trim (stdout output))))
          else Inr None)"

text \<open>
  What \<^verbatim>\<open>getInfo\<close> answers: \<^verbatim>\<open>undefined\<close>, the one parsed record when the output has
  exactly one line, or the array of parsed records.
\<close>

datatype 'j info_result = Undefined | Single 'j | Many "'j list"

text \<open>\<^verbatim>\<open>data.map(d => JSON.parse(d))\<close>: the first line that does not parse throws.\<close>

fun parse_all :: "(string \<Rightarrow> 'j option) \<Rightarrow> string list \<Rightarrow> exn + 'j list" where
  "parse_all JSON_parse [] = Inr []"
| "parse_all JSON_parse (d # ds) =
     (case JSON_parse d of
        None \<Rightarrow> Inl SyntaxError
      | Some j \<Rightarrow>
          (case parse_all JSON_parse ds of
             Inl e \<Rightarrow> Inl e
           | Inr js \<Rightarrow> Inr (j # js)))"

text \<open>
  \<^verbatim>\<open>getInfo\<close>, from the call of \<^verbatim>\<open>run\<close> on: the arguments assembled before it only
  shape the command line.  \<open>JSON_parse\<close> is \<^verbatim>\<open>JSON.parse\<close>, \<open>None\<close> where it throws.
\<close>

definition getInfo ::
  "(string \<Rightarrow> 'j option) \<Rightarrow> string \<Rightarrow> exn + execa_output option \<Rightarrow> exn + 'j info_result" where
  "getInfo JSON_parse url subProcess =
     (case run url subProcess of
        Inl err \<Rightarrow> Inr Undefined
      | Inr None \<Rightarrow> Inr Undefined
      | Inr (Some data) \<Rightarrow>
          (case parse_all JSON_parse data of
             Inl e \<Rightarrow> Inl e
           | Inr info \<Rightarrow> Inr (if length info = 1 then Single (hd info) else Many info)))"

text \<open>
  \<^verbatim>\<open>getListInfo\<close>, on the outcomes of its two calls of \<^verbatim>\<open>getInfo\<close>.  The flat pass
  runs only for yt-dlp; otherwise \<^verbatim>\<open>flatList\<close> stays the empty array.  Reading
  \<^verbatim>\<open>length\<close> of \<^verbatim>\<open>undefined\<close> and calling \<^verbatim>\<open>map\<close> on a value that is no array are
  \<^verbatim>\<open>TypeError\<close>s; a single record has no \<^verbatim>\<open>length\<close>, and the comparison with 0 fails.
\<close>

definition getListInfo ::
  "bool \<Rightarrow> exn + ('a listing_scheme) info_result \<Rightarrow> exn + ('b listing_scheme) info_result \<Rightarrow>
   exn + ('b listing_scheme) info_result" where
  "getListInfo isYtDlp flatInfo listInfo =
     (case (if isYtDlp then flatInfo else Inr (Many [])) of
        Inl e \<Rightarrow> Inl e
      | Inr flatList \<Rightarrow>
          (case listInfo of
             Inl e \<Rightarrow> Inl e
           | Inr list \<Rightarrow>
               (case flatList of
                  Undefined \<Rightarrow> Inl TypeError
                | Single f \<Rightarrow> Inr list
                | Many fl \<Rightarrow>
                    if length fl > 0
                    then (case list of
                            Many l \<Rightarrow> Inr (Many (mergeLists l fl))
                          | _ \<Rightarrow> Inl TypeError)
                    else Inr list)))"

section \<open>The wrapper (unnamed/part_002)\<close>

text \<open>Dates are their \<^verbatim>\<open>getTime()\<close>, milliseconds since the epoch.\<close>

type_synonym Date = int

text \<open>
  The fields of a \<^verbatim>\<open>YoutubeDLInfo\<close> that the wrapper and the channel synchronization
  read.  The synchronization of server/lib/sync-channel.ts reads
  \<^verbatim>\<open>originallyPublishedAtWithoutTime\<close>, the one of unnamed/part_001 reads
  \<^verbatim>\<open>originallyPublishedAt\<close>; a \<^verbatim>\<open>null\<close> date is \<open>None\<close>.
\<close>

record 'f YoutubeDLInfo = timestamps +
  webpageUrl :: "string option"
  isLive :: "bool option"
  formats :: "'f list"
  originallyPublishedAtWithoutTime :: "Date option"
  originallyPublishedAt :: "Date option"

text \<open>
  \<^verbatim>\<open>YoutubeDLCLI.safeGet\<close>: when the binary is missing its directory is ensured, which
  may throw, and the binary is fetched by \<^verbatim>\<open>updateYoutubeDLBinary\<close>, which logs its
  failures.  The answer is the exception thrown, if any.
\<close>

definition safeGet :: "bool \<Rightarrow> exn option \<Rightarrow> exn option" where
  "safeGet pathExists ensureDir =
     (if \<not> pathExists then (case ensureDir of Some e \<Rightarrow> Some e | None \<Rightarrow> None) else None)"

text \<open>
  \<^verbatim>\<open>!info\<close> on the answer of \<^verbatim>\<open>getInfo\<close>: \<^verbatim>\<open>undefined\<close> is falsy, an array is truthy,
  and a single parsed value is judged by \<open>truthy\<close> (an object is truthy; \<^verbatim>\<open>null\<close>,
  \<^verbatim>\<open>false\<close>, 0 and the empty string are not).
\<close>

definition falsy :: "('j \<Rightarrow> bool) \<Rightarrow> 'j info_result \<Rightarrow> bool" where
  "falsy truthy info =
     (case info of Undefined \<Rightarrow> True | Single j \<Rightarrow> \<not> truthy j | Many js \<Rightarrow> False)"

text \<open>
  \<^verbatim>\<open>getInfoForDownload\<close>.  \<open>binary\<close> is the outcome of \<^verbatim>\<open>safeGet\<close>.  \<open>builder_getInfo\<close>
  is \<^verbatim>\<open>new YoutubeDLInfoBuilder(info).getInfo()\<close>, whose helpers are not all in the
  sources at hand.
\<close>

definition getInfoForDownload ::
  "exn option \<Rightarrow> (string \<Rightarrow> 'j option) \<Rightarrow> ('j \<Rightarrow> bool) \<Rightarrow> ('j info_result \<Rightarrow> 'f YoutubeDLInfo) \<Rightarrow>
   string \<Rightarrow> exn + execa_output option \<Rightarrow> exn + 'f YoutubeDLInfo" where
  "getInfoForDownload binary JSON_parse truthy builder_getInfo url subProcess =
     (case binary of
        Some e \<Rightarrow> Inl e
      | None \<Rightarrow>
          (case getInfo JSON_parse url subProcess of
             Inl e \<Rightarrow> Inl e
           | Inr info \<Rightarrow>
               if falsy truthy info then Inl (YoutubeDLNoInfoError url)
               else (let serializedInfo = builder_getInfo info in
                     if isLive serializedInfo = Some True
                     then Inl (YoutubeDLIsLiveError (webpageUrl serializedInfo))
                     else if length (formats serializedInfo) = 0
                     then Inl (YoutubeDLNoFormatsError (webpageUrl serializedInfo))
                     else Inr serializedInfo)))"

text \<open>
  \<^verbatim>\<open>filterUnavailable\<close>: an entry whose release lies after \<open>now\<close> (seconds since the
  epoch) is dropped; a comparison with an absent release time is false.
\<close>

definition filterUnavailable ::
  "number \<Rightarrow> ('f, 'm) YoutubeDLInfo_scheme list \<Rightarrow> ('f, 'm) YoutubeDLInfo_scheme list" where
  "filterUnavailable now list =
     filter (\<lambda>item.
        let toBePremiered = (case release_timestamp item of None \<Rightarrow> False | Some r \<Rightarrow> r > now)
        in if toBePremiered then False else True) list"

text \<open>
  \<^verbatim>\<open>getInfoForListImport\<close>, on the outcome of \<^verbatim>\<open>getListInfo\<close>.  \<open>builder_getList\<close> is
  \<^verbatim>\<open>new YoutubeDLListBuilder(list).getList()\<close>, which is not in the sources at hand,
  and \<open>inspect\<close> is the rendering of a value by \<^verbatim>\<open>util.inspect\<close>.
\<close>

definition getInfoForListImport ::
  "exn option \<Rightarrow> ('j list \<Rightarrow> ('f, 'm) YoutubeDLInfo_scheme list) \<Rightarrow> ('j \<Rightarrow> string) \<Rightarrow>
   number \<Rightarrow> string \<Rightarrow> exn + 'j info_result \<Rightarrow> exn + string option list" where
  "getInfoForListImport binary builder_getList inspect now url listInfo =
     (case binary of
        Some e \<Rightarrow> Inl e
      | None \<Rightarrow>
          (case listInfo of
             Inl e \<Rightarrow> Inl e
           | Inr Undefined \<Rightarrow> Inl TypeError
           | Inr (Single j) \<Rightarrow>
               Inl (Error (''YoutubeDL could not get list info from '' @ url @ '': '' @ inspect j))
           | Inr (Many list) \<Rightarrow>
               if length list = 0 then Inl (Error (''YoutubeDL could not get info from '' @ url))
               else (let serializedList = builder_getList list;
                         filteredList = filterUnavailable now serializedList
                     in Inr (map webpageUrl filteredList))))"

section \<open>Channel synchronization (server/lib/sync-channel.ts and unnamed/part_001)\<close>

text \<open>Modelled from the spec: the states of a synchronization session, PENDING,
  PROCESSING, SYNCED and FAILED.  The enum \<^verbatim>\<open>VideoChannelSyncState\<close> is declared in
  \<^verbatim>\<open>@shared/models\<close>, which is not part of the sources at hand.\<close>

datatype VideoChannelSyncState = PENDING | PROCESSING | SYNCED | FAILED

text \<open>The fields of the session (\<^verbatim>\<open>MChannelSync\<close>) that the synchronization touches.\<close>

record MChannelSync =
  sync_id :: nat
  state :: VideoChannelSyncState
  lastSyncAt :: "Date option"

text \<open>Modelled from the spec: the privacy levels of \<^verbatim>\<open>VideoPrivacy\<close> (declared in
  \<^verbatim>\<open>@shared/models\<close>), of which the synchronization uses the public default.\<close>

datatype VideoPrivacy = PUBLIC | UNLISTED | PRIVATE

text \<open>The \<^verbatim>\<open>importDataOverride\<close> handed to \<^verbatim>\<open>buildYoutubeDLImport\<close>.\<close>

record VideoImportCreate =
  privacy :: VideoPrivacy
  originallyPublishedAt_override :: "Date option"

text \<open>
  A \<^verbatim>\<open>CreateJobArgument\<close>: a video import job as \<^verbatim>\<open>buildYoutubeDLImport\<close> built it, or
  the parent of type \<^verbatim>\<open>after-video-channel-import\<close> with its \<^verbatim>\<open>channelSyncId\<close>.
\<close>

datatype 'j CreateJobArgument = ImportJob 'j | AfterVideoChannelImport "nat option"

text \<open>An entry of the listing in unnamed/part_001.\<close>

record list_entry =
  entry_webpageUrl :: string
  entry_originallyPublishedAt :: "Date option"

text \<open>
  The collaborators of one run, none of them in the sources at hand, each given by the
  outcome of its call, an exception (\<open>Inl\<close>, or \<open>Some\<close> for a call without a value)
  or a value: the clock \<^verbatim>\<open>new Date()\<close>, \<^verbatim>\<open>channelSync.save()\<close>,
  \<^verbatim>\<open>UserModel.loadByChannelActorId\<close>, \<^verbatim>\<open>youtubeDL.getInfoForListImport\<close> for the
  channel, \<^verbatim>\<open>VideoImportModel.urlAlreadyImported\<close> and \<^verbatim>\<open>youtubeDL.getInfoForDownload\<close>
  for a target URL, \<^verbatim>\<open>buildYoutubeDLImport\<close> (for the user, the target URL and the
  override; channel and session are the same in every call),
  \<^verbatim>\<open>JobQueue.Instance.createJobWithChildren\<close>, \<^verbatim>\<open>setHours(0, 0, 0, 0)\<close> on a date, and
  the call \<^verbatim>\<open>logger.warning(...)\<close> of server/lib/sync-channel.ts.  The logger module is
  not in the sources at hand and \<^verbatim>\<open>warning\<close> is called nowhere else in them: on a
  logger without such a method the call is a \<^verbatim>\<open>TypeError\<close>.  The other calls of the
  logger (\<^verbatim>\<open>info\<close>, \<^verbatim>\<open>debug\<close>, \<^verbatim>\<open>error\<close>) are taken to succeed and leave no trace
  in the model.
\<close>

record ('u, 'l, 'j, 'f) collaborators =
  newDate :: Date
  save :: "MChannelSync \<Rightarrow> exn option"
  loadByChannelActorId :: "exn + 'u"
  getInfoForListImport_outcome :: "exn + 'l list"
  urlAlreadyImported :: "string \<Rightarrow> exn + bool"
  getInfoForDownload_outcome :: "string \<Rightarrow> exn + 'f YoutubeDLInfo"
  buildYoutubeDLImport :: "'u \<Rightarrow> string \<Rightarrow> VideoImportCreate \<Rightarrow> exn + 'j"
  createJobWithChildren :: "'j CreateJobArgument \<Rightarrow> 'j CreateJobArgument list \<Rightarrow> exn option"
  setHours0 :: "Date \<Rightarrow> Date"
  logger_warning :: "exn option"

text \<open>
  What a run can change: the session object the caller passed (\<open>None\<close> when the
  option \<^verbatim>\<open>channelSync\<close> is absent), the rows written by \<^verbatim>\<open>save\<close>, oldest first, and
  the parent and children submitted to the job queue.
\<close>

record 'j world =
  channelSync :: "MChannelSync option"
  saved :: "MChannelSync list"
  jobQueue :: "('j CreateJobArgument \<times> 'j CreateJobArgument list) list"

text \<open>
  A step answers the exception it throws, if any, and the world it leaves.
  \<^verbatim>\<open>await channelSync.save()\<close> on an absent session is a \<^verbatim>\<open>TypeError\<close>.
\<close>

definition save_channelSync ::
  "('u, 'l, 'j, 'f) collaborators \<Rightarrow> 'j world \<Rightarrow> exn option \<times> 'j world" where
  "save_channelSync c w =
     (case channelSync w of
        None \<Rightarrow> (Some TypeError, w)
      | Some cs \<Rightarrow>
          (case save c cs of
             Some e \<Rightarrow> (Some e, w)
           | None \<Rightarrow> (None, w\<lparr>saved := saved w @ [cs]\<rparr>)))"

text \<open>
  The opening of \<^verbatim>\<open>synchronizeChannel\<close>, before the \<^verbatim>\<open>try\<close>, the same in both files:
  a supplied session is marked PROCESSING, stamped and saved.
\<close>

definition mark_processing ::
  "('u, 'l, 'j, 'f) collaborators \<Rightarrow> 'j world \<Rightarrow> exn option \<times> 'j world" where
  "mark_processing c w =
     (case channelSync w of
        None \<Rightarrow> (None, w)
      | Some cs \<Rightarrow>
          save_channelSync c
            (w\<lparr>channelSync := Some (cs\<lparr>state := PROCESSING, lastSyncAt := Some (newDate c)\<rparr>)\<rparr>))"

text \<open>
  The \<^verbatim>\<open>catch\<close> block, the same in both files: the error is logged, then
  \<^verbatim>\<open>channelSync.state = VideoChannelSyncState.FAILED\<close> and \<^verbatim>\<open>await channelSync.save()\<close>
  with no test of the session.  Assigning to a field of \<^verbatim>\<open>undefined\<close> is a
  \<^verbatim>\<open>TypeError\<close>; the error caught is not thrown again.
\<close>

definition catch_block ::
  "('u, 'l, 'j, 'f) collaborators \<Rightarrow> exn \<Rightarrow> 'j world \<Rightarrow> exn option \<times> 'j world" where
  "catch_block c err w =
     (case channelSync w of
        None \<Rightarrow> (Some TypeError, w)
      | Some cs \<Rightarrow> save_channelSync c (w\<lparr>channelSync := Some (cs\<lparr>state := FAILED\<rparr>)\<rparr>))"

text \<open>The branch for an empty listing, the same in both files.\<close>

definition mark_synced ::
  "('u, 'l, 'j, 'f) collaborators \<Rightarrow> 'j world \<Rightarrow> exn option \<times> 'j world" where
  "mark_synced c w =
     (case channelSync w of
        None \<Rightarrow> (None, w)
      | Some cs \<Rightarrow> save_channelSync c (w\<lparr>channelSync := Some (cs\<lparr>state := SYNCED\<rparr>)\<rparr>))"

text \<open>The submission of the parent with its children, the same in both files.\<close>

definition submit ::
  "('u, 'l, 'j, 'f) collaborators \<Rightarrow> 'j CreateJobArgument list \<Rightarrow> 'j world \<Rightarrow> exn option \<times> 'j world" where
  "submit c children w =
     (let parent = AfterVideoChannelImport (map_option sync_id (channelSync w)) in
      case createJobWithChildren c parent children of
        Some e \<Rightarrow> (Some e, w)
      | None \<Rightarrow> (None, w\<lparr>jobQueue := jobQueue w @ [(parent, children)]\<rparr>))"

subsection \<open>server/lib/sync-channel.ts\<close>

text \<open>
  \<^verbatim>\<open>skipImport\<close>: the publication date is fetched only under \<^verbatim>\<open>onlyAfter\<close>; reading
  \<^verbatim>\<open>getTime\<close> of a \<^verbatim>\<open>null\<close> date is a \<^verbatim>\<open>TypeError\<close>.
\<close>

definition skipImport ::
  "('u, 'l, 'j, 'f) collaborators \<Rightarrow> string \<Rightarrow> Date option \<Rightarrow> exn + bool" where
  "skipImport c targetUrl onlyAfter =
     (case urlAlreadyImported c targetUrl of
        Inl e \<Rightarrow> Inl e
      | Inr True \<Rightarrow> Inr True
      | Inr False \<Rightarrow>
          (case onlyAfter of
             None \<Rightarrow> Inr False
           | Some d \<Rightarrow>
               (case getInfoForDownload_outcome c targetUrl of
                  Inl e \<Rightarrow> Inl e
                | Inr videoInfo \<Rightarrow>
                    (let onlyAfterWithoutTime = setHours0 c d in
                     case originallyPublishedAtWithoutTime videoInfo of
                       None \<Rightarrow> Inl TypeError
                     | Some p \<Rightarrow> if p < onlyAfterWithoutTime then Inr True else Inr False))))"

text \<open>
  The loop over the target URLs: an exception of \<^verbatim>\<open>skipImport\<close> is logged and the URL
  is passed over; an exception of \<^verbatim>\<open>buildYoutubeDLImport\<close> leaves the loop.
\<close>

fun build_jobs ::
  "('u, string, 'j, 'f) collaborators \<Rightarrow> 'u \<Rightarrow> Date option \<Rightarrow> string list \<Rightarrow>
   'j CreateJobArgument list \<Rightarrow> exn + 'j CreateJobArgument list" where
  "build_jobs c user onlyAfter [] jobs = Inr jobs"
| "build_jobs c user onlyAfter (targetUrl # targetUrls) jobs =
     (case skipImport c targetUrl onlyAfter of
        Inl err \<Rightarrow> build_jobs c user onlyAfter targetUrls jobs
      | Inr True \<Rightarrow> build_jobs c user onlyAfter targetUrls jobs
      | Inr False \<Rightarrow>
          (case buildYoutubeDLImport c user targetUrl
                  \<lparr>privacy = PUBLIC, originallyPublishedAt_override = None\<rparr> of
             Inl e \<Rightarrow> Inl e
           | Inr job \<Rightarrow> build_jobs c user onlyAfter targetUrls (jobs @ [ImportJob job])))"

text \<open>
  The body of the \<^verbatim>\<open>try\<close>.  When no job was built, \<^verbatim>\<open>logger.warning\<close> is called
  and, if it returns, so does the run, with nothing submitted.
\<close>

definition try_block ::
  "('u, string, 'j, 'f) collaborators \<Rightarrow> Date option \<Rightarrow> 'j world \<Rightarrow> exn option \<times> 'j world" where
  "try_block c onlyAfter w =
     (case loadByChannelActorId c of
        Inl e \<Rightarrow> (Some e, w)
      | Inr user \<Rightarrow>
          (case getInfoForListImport_outcome c of
             Inl e \<Rightarrow> (Some e, w)
           | Inr targetUrls \<Rightarrow>
               if length targetUrls = 0 then mark_synced c w
               else (case build_jobs c user onlyAfter targetUrls [] of
                       Inl e \<Rightarrow> (Some e, w)
                     | Inr jobs \<Rightarrow>
                         if length jobs = 0
                         then (case logger_warning c of
                                 Some e \<Rightarrow> (Some e, w)
                               | None \<Rightarrow> (None, w))
                         else submit c jobs w)))"

definition synchronizeChannel ::
  "('u, string, 'j, 'f) collaborators \<Rightarrow> Date option \<Rightarrow> 'j world \<Rightarrow> exn option \<times> 'j world" where
  "synchronizeChannel c onlyAfter w =
     (case mark_processing c w of
        (Some e, w1) \<Rightarrow> (Some e, w1)
      | (None, w1) \<Rightarrow>
          (case try_block c onlyAfter w1 of
             (None, w2) \<Rightarrow> (None, w2)
           | (Some err, w2) \<Rightarrow> catch_block c err w2))"

subsection \<open>unnamed/part_001\<close>

text \<open>
  \<^verbatim>\<open>skipImport\<close> of unnamed/part_001: the information is always fetched, a failure of
  the fetch skips the URL, and the date read is \<^verbatim>\<open>originallyPublishedAt\<close>.
\<close>

definition skipImport_part_001 ::
  "('u, 'l, 'j, 'f) collaborators \<Rightarrow> string \<Rightarrow> Date option \<Rightarrow> exn + bool" where
  "skipImport_part_001 c targetUrl onlyAfter =
     (case urlAlreadyImported c targetUrl of
        Inl e \<Rightarrow> Inl e
      | Inr True \<Rightarrow> Inr True
      | Inr False \<Rightarrow>
          (case getInfoForDownload_outcome c targetUrl of
             Inl err \<Rightarrow> Inr True
           | Inr videoInfo \<Rightarrow>
               (case onlyAfter of
                  None \<Rightarrow> Inr False
                | Some d \<Rightarrow>
                    (let onlyAfterWithoutTime = setHours0 c d in
                     case originallyPublishedAt videoInfo of
                       None \<Rightarrow> Inl TypeError
                     | Some p \<Rightarrow> if p < onlyAfterWithoutTime then Inr True else Inr False))))"

text \<open>
  The loop over the entries: here an exception of \<^verbatim>\<open>skipImport\<close> leaves the loop, and
  the publication date of the entry, unless \<^verbatim>\<open>null\<close>, joins the override.
\<close>

fun build_children ::
  "('u, list_entry, 'j, 'f) collaborators \<Rightarrow> 'u \<Rightarrow> Date option \<Rightarrow> list_entry list \<Rightarrow>
   'j CreateJobArgument list \<Rightarrow> exn + 'j CreateJobArgument list" where
  "build_children c user onlyAfter [] children = Inr children"
| "build_children c user onlyAfter (entry # entries) children =
     (case skipImport_part_001 c (entry_webpageUrl entry) onlyAfter of
        Inl e \<Rightarrow> Inl e
      | Inr True \<Rightarrow> build_children c user onlyAfter entries children
      | Inr False \<Rightarrow>
          (let importDataOverride =
                 \<lparr>privacy = PUBLIC,
                  originallyPublishedAt_override = entry_originallyPublishedAt entry\<rparr> in
           case buildYoutubeDLImport c user (entry_webpageUrl entry) importDataOverride of
             Inl e \<Rightarrow> Inl e
           | Inr job \<Rightarrow> build_children c user onlyAfter entries (children @ [ImportJob job])))"

definition try_block_part_001 ::
  "('u, list_entry, 'j, 'f) collaborators \<Rightarrow> Date option \<Rightarrow> 'j world \<Rightarrow> exn option \<times> 'j world" where
  "try_block_part_001 c onlyAfter w =
     (case loadByChannelActorId c of
        Inl e \<Rightarrow> (Some e, w)
      | Inr user \<Rightarrow>
          (case getInfoForListImport_outcome c of
             Inl e \<Rightarrow> (Some e, w)
           | Inr entries \<Rightarrow>
               if length entries = 0 then mark_synced c w
               else (case build_children c user onlyAfter entries [] of
                       Inl e \<Rightarrow> (Some e, w)
                     | Inr children \<Rightarrow> submit c children w)))"

definition synchronizeChannel_part_001 ::
  "('u, list_entry, 'j, 'f) collaborators \<Rightarrow> Date option \<Rightarrow> 'j world \<Rightarrow> exn option \<times> 'j world" where
  "synchronizeChannel_part_001 c onlyAfter w =
     (case mark_processing c w of
        (Some e, w1) \<Rightarrow> (Some e, w1)
      | (None, w1) \<Rightarrow>
          (case try_block_part_001 c onlyAfter w1 of
             (None, w2) \<Rightarrow> (None, w2)
           | (Some err, w2) \<Rightarrow> catch_block c err w2))"

section \<open>Theorems\<close>

subsection \<open>Target bitrate\<close>

text \<open>
  C4.  For all inputs, the target bitrate is
  \<open>max(minTheoretical, min(averageTheoretical, 1.3 \<times> inputBitrate))\<close> when an input
  bitrate is known (a number other than 0), and the average theoretical bitrate floored
  at the minimum theoretical bitrate when none is known.
\<close>

theorem getTargetBitrate_formula:
  "getTargetBitrate avgT minT inputBitrate resolution ratio fps =
     (case inputBitrate of
        Some b \<Rightarrow>
          if b \<noteq> 0
          then max (minT resolution fps ratio) (min (avgT resolution fps ratio) (13 / 10 * b))
          else max (minT resolution fps ratio) (avgT resolution fps ratio)
      | None \<Rightarrow> max (minT resolution fps ratio) (avgT resolution fps ratio))"
proof (cases inputBitrate)
  case None
  then show ?thesis by (simp add: getTargetBitrate_def capBitrate_def)
next
  case (Some b)
  have "b + b * (3 / 10) = 13 / 10 * b" by (simp add: algebra_simps)
  with Some show ?thesis by (simp add: getTargetBitrate_def capBitrate_def Let_def)
qed

text \<open>
  C5 (as the code has it).  For all inputs the result is never below the minimum
  theoretical bitrate and never above the larger of the minimum and the average, so
  that it is at most the average whenever the minimum is.  For a supplied, positive
  input bitrate the result is at most the larger of the minimum and 1.3 times the input
  bitrate, so that it is at most 1.3 times the input bitrate whenever the minimum is.
\<close>

theorem getTargetBitrate_bounds:
  "minT resolution fps ratio \<le> getTargetBitrate avgT minT inputBitrate resolution ratio fps
   \<and> getTargetBitrate avgT minT inputBitrate resolution ratio fps
       \<le> max (minT resolution fps ratio) (avgT resolution fps ratio)
   \<and> (minT resolution fps ratio \<le> avgT resolution fps ratio \<longrightarrow>
        getTargetBitrate avgT minT inputBitrate resolution ratio fps \<le> avgT resolution fps ratio)
   \<and> (\<forall>b. inputBitrate = Some b \<and> 0 < b \<longrightarrow>
         getTargetBitrate avgT minT inputBitrate resolution ratio fps
           \<le> max (minT resolution fps ratio) (13 / 10 * b))
   \<and> (\<forall>b. inputBitrate = Some b \<and> 0 < b \<and> minT resolution fps ratio \<le> 13 / 10 * b \<longrightarrow>
         getTargetBitrate avgT minT inputBitrate resolution ratio fps \<le> 13 / 10 * b)"
proof -
  have margin: "b + b * (3 / 10) = 13 / 10 * b" for b :: rat
    by (simp add: algebra_simps)
  show ?thesis
    by (cases inputBitrate) (auto simp: getTargetBitrate_def capBitrate_def Let_def margin)
qed

theorem getTargetBitrate_bounds_witness:
  "(1000000 :: rat) \<le> 3000000
   \<and> (1000000 :: rat) \<le> 13 / 10 * 2000000
   \<and> 1000000 \<le> getTargetBitrate (\<lambda>resolution fps ratio. 3000000) (\<lambda>resolution fps ratio. 1000000)
         (Some 2000000) 1080 (16 / 9) 30
   \<and> getTargetBitrate (\<lambda>resolution fps ratio. 3000000) (\<lambda>resolution fps ratio. 1000000)
         (Some 2000000) 1080 (16 / 9) 30 \<le> 3000000
   \<and> getTargetBitrate (\<lambda>resolution fps ratio. 3000000) (\<lambda>resolution fps ratio. 1000000)
         (Some 2000000) 1080 (16 / 9) 30 \<le> 13 / 10 * 2000000"
  using getTargetBitrate_bounds [of "\<lambda>resolution fps ratio. 1000000" 1080 30 "16 / 9"
      "\<lambda>resolution fps ratio. 3000000" "Some 2000000"]
  by simp

text \<open>
  The claim as stated fails where the minimum theoretical bitrate exceeds 1.3 times the
  input bitrate: with a minimum of 1000000, an average of 3000000 and an input bitrate of
  500000 the result is the minimum, above 650000.  The theoretical bitrate functions
  being parameters, the bound by the average fails likewise for a minimum above the
  average: with a minimum of 3000000 and an average of 1000000 the result is the
  minimum, above the average.
\<close>

theorem getTargetBitrate_floor_counterexample:
  "getTargetBitrate (\<lambda>resolution fps ratio. 3000000) (\<lambda>resolution fps ratio. 1000000)
      (Some 500000) 1080 (16 / 9) 30 = 1000000
   \<and> \<not> (getTargetBitrate (\<lambda>resolution fps ratio. 3000000) (\<lambda>resolution fps ratio. 1000000)
         (Some 500000) 1080 (16 / 9) 30 \<le> 13 / 10 * 500000)
   \<and> getTargetBitrate (\<lambda>resolution fps ratio. 1000000) (\<lambda>resolution fps ratio. 3000000)
      None 1080 (16 / 9) 30 = 3000000
   \<and> \<not> (getTargetBitrate (\<lambda>resolution fps ratio. 1000000) (\<lambda>resolution fps ratio. 3000000)
         None 1080 (16 / 9) 30 \<le> 1000000)"
  by (simp add: getTargetBitrate_def capBitrate_def Let_def)

subsection \<open>Quick transcode verdicts\<close>

text \<open>
  C6.  \<^verbatim>\<open>canDoQuickAudioTranscode\<close> answers true if and only if there is no audio stream,
  or the codec is exactly \<^verbatim>\<open>aac\<close>, a bitrate is reported, the bitrate does not exceed
  the maximum AAC bitrate where one is defined (the answer is not \<open>-1\<close>), and the channel
  layout is present and neither \<^verbatim>\<open>unknown\<close> nor \<^verbatim>\<open>quad\<close>.  In particular an
  \<^verbatim>\<open>aac\<close> stream at 128000 with layout \<^verbatim>\<open>stereo\<close>, against a maximum of 128000 for
  that bitrate, is accepted.
\<close>

theorem canDoQuickAudioTranscode_iff:
  "(canDoQuickAudioTranscode getMaxAudioBitrate parsedAudio \<longleftrightarrow>
      audioStream parsedAudio = None
      \<or> (\<exists>s b l. audioStream parsedAudio = Some s \<and> codec_name s = Some ''aac''
            \<and> bitrate parsedAudio = Some b \<and> b \<noteq> 0
            \<and> (getMaxAudioBitrate ''aac'' b = - 1 \<or> b \<le> getMaxAudioBitrate ''aac'' b)
            \<and> channel_layout s = Some l \<and> l \<noteq> [] \<and> l \<noteq> ''unknown'' \<and> l \<noteq> ''quad''))
   \<and> (getMaxAudioBitrate ''aac'' 128000 = 128000 \<longrightarrow>
        canDoQuickAudioTranscode getMaxAudioBitrate
          \<lparr>audioStream = Some \<lparr>codec_name = Some ''aac'', pix_fmt = p,
                                 channel_layout = Some ''stereo''\<rparr>,
           bitrate = Some 128000\<rparr>)"
  by (auto simp: canDoQuickAudioTranscode_def Let_def split: option.splits)

theorem canDoQuickAudioTranscode_iff_witness:
  "canDoQuickAudioTranscode (\<lambda>codec b. 128000)
          \<lparr>audioStream = Some \<lparr>codec_name = Some ''aac'', pix_fmt = None,
                                 channel_layout = Some ''stereo''\<rparr>,
           bitrate = Some 128000\<rparr>"
  using canDoQuickAudioTranscode_iff [of "\<lambda>codec b. 128000" _ None]
  by simp

text \<open>
  C7.  \<^verbatim>\<open>canDoQuickVideoTranscode\<close> answers true only if the bitrate is known, the
  codec is \<^verbatim>\<open>h264\<close> with pixel format \<^verbatim>\<open>yuv420p\<close>, the frame rate is not rejected,
  which happens exactly when fps < 2 or fps > 65, and the bitrate does not exceed the
  maximum theoretical bitrate for the stream's dimensions and frame rate; for a file
  with a video stream these conditions are also sufficient.  In particular an
  \<^verbatim>\<open>h264\<close>/\<^verbatim>\<open>yuv420p\<close> stream at 70 fps is refused.
\<close>

theorem canDoQuickVideoTranscode_iff:
  "(canDoQuickVideoTranscode getMaxTheoreticalBitrate videoStream fps bitRate resolutionData \<longleftrightarrow>
      (\<exists>v b. videoStream = Some v \<and> bitRate = Some b \<and> b \<noteq> 0
            \<and> codec_name v = Some ''h264'' \<and> pix_fmt v = Some ''yuv420p''
            \<and> \<not> (fps < 2 \<or> fps > 65)
            \<and> b \<le> getMaxTheoreticalBitrate resolutionData fps))
   \<and> \<not> canDoQuickVideoTranscode getMaxTheoreticalBitrate
          (Some \<lparr>codec_name = Some ''h264'', pix_fmt = Some ''yuv420p'', channel_layout = l\<rparr>)
          70 bitRate resolutionData"
  by (auto simp: canDoQuickVideoTranscode_def split: option.splits)

subsection \<open>Format selection\<close>

lemma digit_not_slash: "d < 10 \<Longrightarrow> digit d \<noteq> CHR ''/''"
proof -
  assume "d < 10"
  then have "d \<in> {0, 1, 2, 3, 4, 5, 6, 7, 8, 9}" by auto
  then show ?thesis by (auto simp: digit_def)
qed

lemma toString_no_slash: "CHR ''/'' \<notin> set (toString n)"
proof (induction n rule: toString.induct)
  case (1 n)
  show ?case
  proof (cases "n < 10")
    case True
    then show ?thesis using digit_not_slash [of n] by (subst toString.simps) simp
  next
    case False
    have "n mod 10 < 10" by simp
    then have "digit (n mod 10) \<noteq> CHR ''/''" by (rule digit_not_slash)
    with False 1 show ?thesis by (subst toString.simps) auto
  qed
qed

lemma split_on_append:
  "c \<notin> set t \<Longrightarrow> split_on c (t @ c # rest) = t # split_on c rest"
  by (induction t) auto

lemma split_on_single: "c \<notin> set t \<Longrightarrow> split_on c t = [t]"
  by (induction t) auto

lemma split_on_join:
  "ts \<noteq> [] \<Longrightarrow> \<forall>t \<in> set ts. c \<notin> set t \<Longrightarrow> split_on c (join [c] ts) = ts"
proof (induction ts)
  case Nil
  then show ?case by simp
next
  case (Cons t ts)
  show ?case
  proof (cases ts)
    case Nil
    with Cons.prems show ?thesis by (simp add: split_on_single)
  next
    case (Cons y ys)
    with Cons.IH Cons.prems have "split_on c (join [c] (y # ys)) = y # ys" by simp
    moreover from Cons.prems have "c \<notin> set t" by simp
    ultimately show ?thesis
      using Cons split_on_append [of c t "join [c] (y # ys)"] by simp
  qed
qed

lemma Math_max_Max: "xs \<noteq> [] \<Longrightarrow> Math_max xs = Max (set xs)"
proof (cases xs)
  case Nil
  assume "xs \<noteq> []"
  with Nil show ?thesis by simp
next
  case (Cons a as)
  then show ?thesis using Max.set_eq_fold [of a as] by simp
qed

lemma no_slash_specific:
  assumes "CHR ''/'' \<notin> set r"
  shows "CHR ''/'' \<notin> set (''bestvideo[vcodec^=avc1][height='' @ r @ '']+bestaudio[ext=m4a]'')"
    and "CHR ''/'' \<notin> set (''bestvideo[vcodec!*=av01][vcodec!*=vp9.2][height='' @ r @ '']+bestaudio'')"
    and "CHR ''/'' \<notin> set (''bestvideo[vcodec^=avc1][height<='' @ r @ '']+bestaudio[ext=m4a]'')"
  using assms by simp_all

lemma no_slash_universal:
  "\<forall>t \<in> set [''bestvideo[vcodec!*=av01][vcodec!*=vp9.2]+bestaudio'',
             ''best[vcodec!*=av01][vcodec!*=vp9.2]'',
             ''bestvideo[ext=mp4]+bestaudio[ext=m4a]'',
             ''best'']. CHR ''/'' \<notin> set t"
  by simp

lemma excludes_specific:
  "excludes_av01_vp92 (''bestvideo[vcodec^=avc1][height='' @ r @ '']+bestaudio[ext=m4a]'')"
  "excludes_av01_vp92 (''bestvideo[vcodec!*=av01][vcodec!*=vp9.2][height='' @ r @ '']+bestaudio'')"
  "excludes_av01_vp92 (''bestvideo[vcodec^=avc1][height<='' @ r @ '']+bestaudio[ext=m4a]'')"
proof -
  have a: "''bestvideo[vcodec^=avc1][height='' @ r @ '']+bestaudio[ext=m4a]''
         = ''bestvideo'' @ ''[vcodec^=avc1]'' @ (''[height='' @ r @ '']+bestaudio[ext=m4a]'')"
    by simp
  show "excludes_av01_vp92 (''bestvideo[vcodec^=avc1][height='' @ r @ '']+bestaudio[ext=m4a]'')"
    unfolding excludes_av01_vp92_def by (subst a, rule disjI1, rule sublist_appendI)
  have b: "''bestvideo[vcodec^=avc1][height<='' @ r @ '']+bestaudio[ext=m4a]''
         = ''bestvideo'' @ ''[vcodec^=avc1]'' @ (''[height<='' @ r @ '']+bestaudio[ext=m4a]'')"
    by simp
  show "excludes_av01_vp92 (''bestvideo[vcodec^=avc1][height<='' @ r @ '']+bestaudio[ext=m4a]'')"
    unfolding excludes_av01_vp92_def by (subst b, rule disjI1, rule sublist_appendI)
  have c: "''bestvideo[vcodec!*=av01][vcodec!*=vp9.2][height='' @ r @ '']+bestaudio''
         = ''bestvideo'' @ ''[vcodec!*=av01]'' @ (''[vcodec!*=vp9.2][height='' @ r @ '']+bestaudio'')"
    by simp
  have d: "''bestvideo[vcodec!*=av01][vcodec!*=vp9.2][height='' @ r @ '']+bestaudio''
         = ''bestvideo[vcodec!*=av01]'' @ ''[vcodec!*=vp9.2]'' @ (''[height='' @ r @ '']+bestaudio'')"
    by simp
  have "sublist ''[vcodec!*=av01]'' (''bestvideo[vcodec!*=av01][vcodec!*=vp9.2][height='' @ r @ '']+bestaudio'')"
    by (subst c, rule sublist_appendI)
  moreover have "sublist ''[vcodec!*=vp9.2]'' (''bestvideo[vcodec!*=av01][vcodec!*=vp9.2][height='' @ r @ '']+bestaudio'')"
    by (subst d, rule sublist_appendI)
  ultimately show "excludes_av01_vp92 (''bestvideo[vcodec!*=av01][vcodec!*=vp9.2][height='' @ r @ '']+bestaudio'')"
    unfolding excludes_av01_vp92_def by simp
qed

lemma excludes_universal:
  "excludes_av01_vp92 ''bestvideo[vcodec!*=av01][vcodec!*=vp9.2]+bestaudio''"
  "excludes_av01_vp92 ''best[vcodec!*=av01][vcodec!*=vp9.2]''"
  "\<not> excludes_av01_vp92 ''bestvideo[ext=mp4]+bestaudio[ext=m4a]''"
  "\<not> excludes_av01_vp92 ''best''"
  by (simp_all add: excludes_av01_vp92_def sublist_Cons_right)


text \<open>
  C8 (as the code has it).  For every list of enabled resolutions and best-format flag,
  the chain reads back as (3 tiers unless best-format) + 4 tiers in the declared order;
  the one target resolution is the maximum of the enabled resolutions, or 1080 when there
  are none; and every tier but the last two keeps AV1 and VP9 profile 2 out.  The last
  two tiers, \<^verbatim>\<open>bestvideo[ext=mp4]+bestaudio[ext=m4a]\<close> and \<^verbatim>\<open>best\<close>, carry no codec
  restriction.
\<close>

theorem getYoutubeDLVideoFormat_tiers:
  "tiers (getYoutubeDLVideoFormat enabledResolutions useBestFormat) =
     (if useBestFormat then []
      else [''bestvideo[vcodec^=avc1][height=''
              @ toString (if enabledResolutions = [] then 1080 else Max (set enabledResolutions))
              @ '']+bestaudio[ext=m4a]'',
            ''bestvideo[vcodec!*=av01][vcodec!*=vp9.2][height=''
              @ toString (if enabledResolutions = [] then 1080 else Max (set enabledResolutions))
              @ '']+bestaudio'',
            ''bestvideo[vcodec^=avc1][height<=''
              @ toString (if enabledResolutions = [] then 1080 else Max (set enabledResolutions))
              @ '']+bestaudio[ext=m4a]''])
     @ [''bestvideo[vcodec!*=av01][vcodec!*=vp9.2]+bestaudio'',
        ''best[vcodec!*=av01][vcodec!*=vp9.2]'',
        ''bestvideo[ext=mp4]+bestaudio[ext=m4a]'',
        ''best'']
   \<and> length (tiers (getYoutubeDLVideoFormat enabledResolutions useBestFormat)) =
       (if useBestFormat then 0 else 3) + 4
   \<and> list_all excludes_av01_vp92
       (butlast (butlast (tiers (getYoutubeDLVideoFormat enabledResolutions useBestFormat))))
   \<and> \<not> excludes_av01_vp92
         (last (butlast (tiers (getYoutubeDLVideoFormat enabledResolutions useBestFormat))))
   \<and> \<not> excludes_av01_vp92
         (last (tiers (getYoutubeDLVideoFormat enabledResolutions useBestFormat)))"
proof -
  define r where "r = toString (if enabledResolutions = [] then 1080 else Max (set enabledResolutions))"
  define specific where "specific =
    (if useBestFormat then []
     else [''bestvideo[vcodec^=avc1][height='' @ r @ '']+bestaudio[ext=m4a]'',
           ''bestvideo[vcodec!*=av01][vcodec!*=vp9.2][height='' @ r @ '']+bestaudio'',
           ''bestvideo[vcodec^=avc1][height<='' @ r @ '']+bestaudio[ext=m4a]''])"
  define universal where "universal =
    [''bestvideo[vcodec!*=av01][vcodec!*=vp9.2]+bestaudio'',
     ''best[vcodec!*=av01][vcodec!*=vp9.2]'',
     ''bestvideo[ext=mp4]+bestaudio[ext=m4a]'',
     ''best'']"
  have r_slash: "CHR ''/'' \<notin> set r"
    unfolding r_def by (rule toString_no_slash)
  have res: "(if length enabledResolutions = 0 then H_1080P else Math_max enabledResolutions)
           = (if enabledResolutions = [] then 1080 else Max (set enabledResolutions))"
    by (simp add: H_1080P_def Math_max_Max)
  have chain: "getYoutubeDLVideoFormat enabledResolutions useBestFormat
             = join ''/'' (specific @ universal)"
    unfolding getYoutubeDLVideoFormat_def Let_def res specific_def universal_def r_def
    by simp
  have "\<forall>t \<in> set specific. CHR ''/'' \<notin> set t"
    unfolding specific_def using no_slash_specific [OF r_slash] by simp
  moreover have "\<forall>t \<in> set universal. CHR ''/'' \<notin> set t"
    unfolding universal_def by (rule no_slash_universal)
  ultimately have "\<forall>t \<in> set (specific @ universal). CHR ''/'' \<notin> set t"
    by auto
  moreover have "specific @ universal \<noteq> []"
    by (simp add: universal_def)
  ultimately have split: "tiers (getYoutubeDLVideoFormat enabledResolutions useBestFormat)
                        = specific @ universal"
    unfolding tiers_def chain by (rule split_on_join [rotated])
  have bl: "butlast (butlast (specific @ universal))
          = specific @ [''bestvideo[vcodec!*=av01][vcodec!*=vp9.2]+bestaudio'',
                        ''best[vcodec!*=av01][vcodec!*=vp9.2]'']"
    by (simp add: universal_def butlast_append)
  have "list_all excludes_av01_vp92 specific"
    unfolding specific_def using excludes_specific [of r] by simp
  then have safe: "list_all excludes_av01_vp92 (butlast (butlast (specific @ universal)))"
    unfolding bl by (simp add: excludes_universal)
  have l1: "last (specific @ universal) = ''best''"
    by (simp add: universal_def)
  have l2: "last (butlast (specific @ universal)) = ''bestvideo[ext=mp4]+bestaudio[ext=m4a]''"
    by (simp add: universal_def butlast_append)
  have len: "length (specific @ universal) = (if useBestFormat then 0 else 3) + 4"
    by (simp add: specific_def universal_def)
  have c1: "tiers (getYoutubeDLVideoFormat enabledResolutions useBestFormat) =
     (if useBestFormat then []
      else [''bestvideo[vcodec^=avc1][height=''
              @ toString (if enabledResolutions = [] then 1080 else Max (set enabledResolutions))
              @ '']+bestaudio[ext=m4a]'',
            ''bestvideo[vcodec!*=av01][vcodec!*=vp9.2][height=''
              @ toString (if enabledResolutions = [] then 1080 else Max (set enabledResolutions))
              @ '']+bestaudio'',
            ''bestvideo[vcodec^=avc1][height<=''
              @ toString (if enabledResolutions = [] then 1080 else Max (set enabledResolutions))
              @ '']+bestaudio[ext=m4a]''])
     @ [''bestvideo[vcodec!*=av01][vcodec!*=vp9.2]+bestaudio'',
        ''best[vcodec!*=av01][vcodec!*=vp9.2]'',
        ''bestvideo[ext=mp4]+bestaudio[ext=m4a]'',
        ''best'']"
    using split unfolding specific_def universal_def r_def .
  have c2: "length (tiers (getYoutubeDLVideoFormat enabledResolutions useBestFormat)) =
       (if useBestFormat then 0 else 3) + 4"
    unfolding split by (rule len)
  have c3: "list_all excludes_av01_vp92
       (butlast (butlast (tiers (getYoutubeDLVideoFormat enabledResolutions useBestFormat))))"
    unfolding split by (rule safe)
  have c4: "\<not> excludes_av01_vp92
         (last (butlast (tiers (getYoutubeDLVideoFormat enabledResolutions useBestFormat))))"
    unfolding split l2 by (rule excludes_universal)
  have c5: "\<not> excludes_av01_vp92
         (last (tiers (getYoutubeDLVideoFormat enabledResolutions useBestFormat)))"
    unfolding split l1 by (rule excludes_universal)
  show ?thesis
    by (intro conjI c1 c2 c3 c4 c5)
qed

text \<open>
  The claim as stated fails at the final fallback: for the enabled resolutions 720 and
  1080 the chain ends in the tier \<^verbatim>\<open>best\<close>, which excludes no codec.
\<close>

theorem getYoutubeDLVideoFormat_last_tiers_counterexample:
  "tiers (getYoutubeDLVideoFormat [720, 1080] False) =
     [''bestvideo[vcodec^=avc1][height=1080]+bestaudio[ext=m4a]'',
      ''bestvideo[vcodec!*=av01][vcodec!*=vp9.2][height=1080]+bestaudio'',
      ''bestvideo[vcodec^=avc1][height<=1080]+bestaudio[ext=m4a]'',
      ''bestvideo[vcodec!*=av01][vcodec!*=vp9.2]+bestaudio'',
      ''best[vcodec!*=av01][vcodec!*=vp9.2]'',
      ''bestvideo[ext=mp4]+bestaudio[ext=m4a]'',
      ''best'']
   \<and> \<not> list_all excludes_av01_vp92 (tiers (getYoutubeDLVideoFormat [720, 1080] False))"
proof -
  have t: "toString 1080 = ''1080''"
    by (simp add: toString.simps digit_def)
  have "getYoutubeDLVideoFormat [720, 1080] False =
     ''bestvideo[vcodec^=avc1][height=1080]+bestaudio[ext=m4a]/bestvideo[vcodec!*=av01][vcodec!*=vp9.2][height=1080]+bestaudio/bestvideo[vcodec^=avc1][height<=1080]+bestaudio[ext=m4a]/bestvideo[vcodec!*=av01][vcodec!*=vp9.2]+bestaudio/best[vcodec!*=av01][vcodec!*=vp9.2]/bestvideo[ext=mp4]+bestaudio[ext=m4a]/best''"
    by (simp add: getYoutubeDLVideoFormat_def t)
  then have "tiers (getYoutubeDLVideoFormat [720, 1080] False) =
     [''bestvideo[vcodec^=avc1][height=1080]+bestaudio[ext=m4a]'',
      ''bestvideo[vcodec!*=av01][vcodec!*=vp9.2][height=1080]+bestaudio'',
      ''bestvideo[vcodec^=avc1][height<=1080]+bestaudio[ext=m4a]'',
      ''bestvideo[vcodec!*=av01][vcodec!*=vp9.2]+bestaudio'',
      ''best[vcodec!*=av01][vcodec!*=vp9.2]'',
      ''bestvideo[ext=mp4]+bestaudio[ext=m4a]'',
      ''best'']"
    by (simp add: tiers_def)
  moreover have "\<not> excludes_av01_vp92 ''best''"
    by (simp add: excludes_av01_vp92_def sublist_Cons_right)
  ultimately show ?thesis by simp
qed

subsection \<open>Playlist listing merge\<close>

lemma mergeItem_webpage_url: "webpage_url (mergeItem flatList item) = webpage_url item"
  by (simp add: mergeItem_def Let_def split: option.splits)

lemma mergeItem_timestamp:
  "timestamp (mergeItem flatList item) =
     (case find (\<lambda>o'. webpage_url o' = webpage_url item) flatList of
        None \<Rightarrow> timestamp item
      | Some f \<Rightarrow>
          (case timestamp f of
             None \<Rightarrow> timestamp item
           | Some t \<Rightarrow> if 0 < t then Some t else timestamp item))"
  by (simp add: mergeItem_def Let_def split: option.splits)

lemma mergeItem_release_timestamp:
  "release_timestamp (mergeItem flatList item) =
     (case find (\<lambda>o'. webpage_url o' = webpage_url item) flatList of
        None \<Rightarrow> release_timestamp item
      | Some f \<Rightarrow>
          (case release_timestamp f of
             None \<Rightarrow> release_timestamp item
           | Some t \<Rightarrow> if 0 < t then Some t else release_timestamp item))"
  by (simp add: mergeItem_def Let_def split: option.splits)

lemma mergeItem_no_match:
  "find (\<lambda>o'. webpage_url o' = webpage_url item) flatList = None \<Longrightarrow> mergeItem flatList item = item"
  by (simp add: mergeItem_def)

text \<open>
  C9.  In the merge keyed by \<^verbatim>\<open>webpage_url\<close>, the merged list has the entries of the
  detailed pass in their order, and for every entry: its \<^verbatim>\<open>timestamp\<close> (and likewise
  its \<^verbatim>\<open>release_timestamp\<close>) differs from the detailed-pass value only if the first
  flat-pass record with the same URL carries a strictly positive value, which is then
  the merged value; a flat-pass value that is absent, zero or negative leaves the
  detailed-pass value in place; and an entry with no flat-pass record is unchanged.
\<close>

theorem mergeLists_overwrites_only_positive:
  "length (mergeLists list flatList) = length list
   \<and> (\<forall>i < length list.
        webpage_url (mergeLists list flatList ! i) = webpage_url (list ! i)
        \<and> (timestamp (mergeLists list flatList ! i) \<noteq> timestamp (list ! i) \<longrightarrow>
             (\<exists>f t. find (\<lambda>o'. webpage_url o' = webpage_url (list ! i)) flatList = Some f
                    \<and> timestamp f = Some t \<and> 0 < t
                    \<and> timestamp (mergeLists list flatList ! i) = Some t))
        \<and> (release_timestamp (mergeLists list flatList ! i) \<noteq> release_timestamp (list ! i) \<longrightarrow>
             (\<exists>f t. find (\<lambda>o'. webpage_url o' = webpage_url (list ! i)) flatList = Some f
                    \<and> release_timestamp f = Some t \<and> 0 < t
                    \<and> release_timestamp (mergeLists list flatList ! i) = Some t))
        \<and> (\<forall>f. find (\<lambda>o'. webpage_url o' = webpage_url (list ! i)) flatList = Some f \<longrightarrow>
              (timestamp f = None \<or> (\<exists>t. timestamp f = Some t \<and> t \<le> 0) \<longrightarrow>
                 timestamp (mergeLists list flatList ! i) = timestamp (list ! i))
              \<and> (release_timestamp f = None \<or> (\<exists>t. release_timestamp f = Some t \<and> t \<le> 0) \<longrightarrow>
                 release_timestamp (mergeLists list flatList ! i) = release_timestamp (list ! i))
              \<and> (\<forall>t. timestamp f = Some t \<and> 0 < t \<longrightarrow>
                 timestamp (mergeLists list flatList ! i) = Some t)
              \<and> (\<forall>t. release_timestamp f = Some t \<and> 0 < t \<longrightarrow>
                 release_timestamp (mergeLists list flatList ! i) = Some t))
        \<and> (find (\<lambda>o'. webpage_url o' = webpage_url (list ! i)) flatList = None \<longrightarrow>
              mergeLists list flatList ! i = list ! i))"
proof (cases "length flatList > 0")
  case False
  then show ?thesis by (simp add: mergeLists_def)
next
  case True
  then have m: "mergeLists list flatList = map (mergeItem flatList) list"
    by (simp add: mergeLists_def)
  show ?thesis
    unfolding m
    by (auto simp: mergeItem_webpage_url mergeItem_timestamp mergeItem_release_timestamp
          mergeItem_no_match split: option.splits if_splits)
qed

theorem mergeLists_overwrites_only_positive_witness:
  "mergeLists
     [\<lparr>timestamp = Some 1700000000, release_timestamp = Some 1700000500,
       webpage_url = Some ''https://example.org/watch?v=a''\<rparr>,
      \<lparr>timestamp = None, release_timestamp = None,
       webpage_url = Some ''https://example.org/watch?v=b''\<rparr>]
     [\<lparr>timestamp = Some 0, release_timestamp = None,
       webpage_url = Some ''https://example.org/watch?v=a''\<rparr>,
      \<lparr>timestamp = Some 1600000000, release_timestamp = Some (- 1),
       webpage_url = Some ''https://example.org/watch?v=b''\<rparr>]
   = [\<lparr>timestamp = Some 1700000000, release_timestamp = Some 1700000500,
       webpage_url = Some ''https://example.org/watch?v=a''\<rparr>,
      \<lparr>timestamp = Some 1600000000, release_timestamp = None,
       webpage_url = Some ''https://example.org/watch?v=b''\<rparr>]
   \<and> length (mergeLists
     [\<lparr>timestamp = Some 1700000000, release_timestamp = Some 1700000500,
       webpage_url = Some ''https://example.org/watch?v=a''\<rparr>,
      \<lparr>timestamp = None, release_timestamp = None,
       webpage_url = Some ''https://example.org/watch?v=b''\<rparr>]
     [\<lparr>timestamp = Some 0, release_timestamp = None,
       webpage_url = Some ''https://example.org/watch?v=a''\<rparr>,
      \<lparr>timestamp = Some 1600000000, release_timestamp = Some (- 1),
       webpage_url = Some ''https://example.org/watch?v=b''\<rparr>]) = 2"
  using mergeLists_overwrites_only_positive
    [of "[\<lparr>timestamp = Some 1700000000, release_timestamp = Some 1700000500,
       webpage_url = Some ''https://example.org/watch?v=a''\<rparr>,
      \<lparr>timestamp = None, release_timestamp = None,
       webpage_url = Some ''https://example.org/watch?v=b''\<rparr>]"
     "[\<lparr>timestamp = Some 0, release_timestamp = None,
       webpage_url = Some ''https://example.org/watch?v=a''\<rparr>,
      \<lparr>timestamp = Some 1600000000, release_timestamp = Some (- 1),
       webpage_url = Some ''https://example.org/watch?v=b''\<rparr>]"]
  by (simp add: mergeLists_def mergeItem_def)

text \<open>
  Within \<^verbatim>\<open>getListInfo\<close>, two arrays from the two passes are merged by \<open>mergeLists\<close>;
  without yt-dlp there is no flat pass and the detailed pass is returned as it is.
\<close>

lemma getListInfo_arrays:
  "getListInfo True (Inr (Many flatList)) (Inr (Many list)) = Inr (Many (mergeLists list flatList))"
  "getListInfo False flatInfo (Inr list') = Inr list'"
  by (simp_all add: getListInfo_def mergeLists_def)

subsection \<open>The extraction subprocess\<close>

lemma split_lines_from_nonempty: "split_lines_from cur s \<noteq> []"
  by (induction cur s rule: split_lines_from.induct) auto

lemma split_lines_from_no_LF:
  "CHR 0x0A \<notin> set cur \<Longrightarrow> \<forall>l \<in> set (split_lines_from cur s). CHR 0x0A \<notin> set l"
  by (induction cur s rule: split_lines_from.induct) auto

lemma split_lines_from_hd:
  "cur \<noteq> [] \<Longrightarrow> hd (split_lines_from cur s) \<noteq> []"
  by (induction cur s rule: split_lines_from.induct) auto

lemma split_lines_from_last:
  "s \<noteq> [] \<Longrightarrow> last s \<noteq> CHR 0x0A \<Longrightarrow> last (split_lines_from cur s) \<noteq> []"
  by (induction cur s rule: split_lines_from.induct)
     (auto simp: split_lines_from_nonempty split: if_splits)

lemma rev_dropWhile_rev_prefix:
  "\<exists>zs. xs = rev (dropWhile P (rev xs)) @ zs"
proof -
  have "rev (takeWhile P (rev xs) @ dropWhile P (rev xs)) = xs"
    by (simp only: takeWhile_dropWhile_id rev_rev_ident)
  then have "xs = rev (dropWhile P (rev xs)) @ rev (takeWhile P (rev xs))"
    by (simp only: rev_append)
  then show ?thesis ..
qed

lemma trim_hd: 
  assumes "trim s \<noteq> []" 
  shows "\<not> isWhiteSpace (hd (trim s))"
proof -
  define t where "t = dropWhile isWhiteSpace s"
  have tr: "trim s = rev (dropWhile isWhiteSpace (rev t))" by (simp add: trim_def t_def)
  obtain zs where zs: "t = trim s @ zs" using rev_dropWhile_rev_prefix [of t isWhiteSpace] tr by auto
  with assms have "t \<noteq> []" by auto
  then have "\<not> isWhiteSpace (hd t)" unfolding t_def by (rule hd_dropWhile)
  moreover have "hd t = hd (trim s)" using zs assms by (metis hd_append2)
  ultimately show ?thesis by simp
qed

lemma trim_last:
  assumes "trim s \<noteq> []" 
  shows "\<not> isWhiteSpace (last (trim s))"
proof -
  define u where "u = dropWhile isWhiteSpace (rev (dropWhile isWhiteSpace s))"
  have tr: "trim s = rev u" by (simp add: trim_def u_def)
  with assms have "u \<noteq> []" by simp
  then have "\<not> isWhiteSpace (hd u)" unfolding u_def by (rule hd_dropWhile)
  moreover have "last (trim s) = hd u" using tr \<open>u \<noteq> []\<close> by (simp add: last_rev)
  ultimately show ?thesis by simp
qed

lemma isWhiteSpace_LF: "isWhiteSpace (CHR 0x0A)" and isWhiteSpace_CR: "isWhiteSpace (CHR 0x0D)"
  by (simp_all add: isWhiteSpace_def)

lemma split_lines_trim_outer:
  assumes "trim s \<noteq> []"
  shows "hd (split_lines (trim s)) \<noteq> []" and "last (split_lines (trim s)) \<noteq> []"
proof -
  from assms obtain c r where cr: "trim s = c # r" by (cases "trim s") auto
  have "\<not> isWhiteSpace c" using trim_hd [OF assms] cr by simp
  then have c: "c \<noteq> CHR 0x0A" "c \<noteq> CHR 0x0D"
    using isWhiteSpace_LF isWhiteSpace_CR by auto
  show "hd (split_lines (trim s)) \<noteq> []"
  proof (cases r)
    case Nil
    with cr c show ?thesis by (simp add: split_lines_def)
  next
    case (Cons d r')
    with cr c show ?thesis by (simp add: split_lines_def split_lines_from_hd)
  qed
  have "last (trim s) \<noteq> CHR 0x0A"
    using trim_last [OF assms] isWhiteSpace_LF by auto
  with assms show "last (split_lines (trim s)) \<noteq> []"
    unfolding split_lines_def by (rule split_lines_from_last)
qed

text \<open>
  C1 (as the code has it).  For every invocation of \<^verbatim>\<open>run\<close> on a URL that obtains a
  process result: a non-zero exit code throws a retcode error carrying the exit code
  and the URL; exit code 0 with a non-empty \<^verbatim>\<open>stderr\<close> throws a crash error carrying
  the \<^verbatim>\<open>stderr\<close> text and the URL; exit code 0 with an empty \<^verbatim>\<open>stderr\<close> succeeds,
  with \<^verbatim>\<open>undefined\<close> for an empty \<^verbatim>\<open>stdout\<close> and otherwise with the trimmed
  \<^verbatim>\<open>stdout\<close> cut at its line breaks.  The lines are never none and hold no line feed;
  the first and the last line are non-empty unless \<^verbatim>\<open>stdout\<close> is all white space,
  where the answer is the one empty line.  Lines in between may be empty.
\<close>

theorem run_classification:
  "run url (Inr (Some output)) =
     (if exitCode output \<noteq> 0 then Inl (YoutubeDLCLIRetCodeError (exitCode output) url)
      else if stderr output \<noteq> [] then Inl (YoutubeDLCLICrashError (stderr output) url)
      else if stdout output = [] then Inr None
      else Inr (Some (split_lines (trim (stdout output)))))
   \<and> split_lines (trim (stdout output)) \<noteq> []
   \<and> (\<forall>l \<in> set (split_lines (trim (stdout output))). CHR 0x0A \<notin> set l)
   \<and> (if trim (stdout output) = [] then split_lines (trim (stdout output)) = [[]]
      else hd (split_lines (trim (stdout output))) \<noteq> []
         \<and> last (split_lines (trim (stdout output))) \<noteq> [])"
proof -
  have c1: "run url (Inr (Some output)) =
     (if exitCode output \<noteq> 0 then Inl (YoutubeDLCLIRetCodeError (exitCode output) url)
      else if stderr output \<noteq> [] then Inl (YoutubeDLCLICrashError (stderr output) url)
      else if stdout output = [] then Inr None
      else Inr (Some (split_lines (trim (stdout output)))))"
    by (simp add: run_def)
  have c2: "split_lines (trim (stdout output)) \<noteq> []"
    by (simp add: split_lines_def split_lines_from_nonempty)
  have c3: "\<forall>l \<in> set (split_lines (trim (stdout output))). CHR 0x0A \<notin> set l"
    unfolding split_lines_def by (rule split_lines_from_no_LF) simp
  have c4: "if trim (stdout output) = [] then split_lines (trim (stdout output)) = [[]]
      else hd (split_lines (trim (stdout output))) \<noteq> []
         \<and> last (split_lines (trim (stdout output))) \<noteq> []"
    using split_lines_trim_outer [of "stdout output"] by (simp add: split_lines_def)
  show ?thesis by (intro conjI c1 c2 c3 c4)
qed

theorem run_classification_witness:
  "run ''https://example.org/v'' 
      (Inr (Some \<lparr>exitCode = 0, stdout = [CHR ''a'', CHR 0x0D, CHR 0x0A, CHR ''b'', CHR 0x0A], stderr = []\<rparr>))
     = Inr (Some [''a'', ''b''])
   \<and> set (split_lines (trim [CHR ''a'', CHR 0x0D, CHR 0x0A, CHR ''b'', CHR 0x0A])) = {''a'', ''b''}"
  using run_classification [of "''https://example.org/v''"
      "\<lparr>exitCode = 0, stdout = [CHR ''a'', CHR 0x0D, CHR 0x0A, CHR ''b'', CHR 0x0A], stderr = []\<rparr>"]
  by (simp add: trim_def isWhiteSpace_def split_lines_def)

text \<open>
  The claim as stated fails in three places: an empty line between two lines is kept,
  an empty \<^verbatim>\<open>stdout\<close> gives \<^verbatim>\<open>undefined\<close> and no array of lines, and a missing process
  result is a \<^verbatim>\<open>TypeError\<close>, not an exec error.
\<close>

theorem run_classification_counterexample:
  "run ''https://example.org/v''
      (Inr (Some \<lparr>exitCode = 0, stdout = [CHR ''a'', CHR 0x0A, CHR 0x0A, CHR ''b''], stderr = []\<rparr>))
     = Inr (Some [''a'', [], ''b''])
   \<and> run ''https://example.org/v'' (Inr (Some \<lparr>exitCode = 0, stdout = [], stderr = []\<rparr>)) = Inr None
   \<and> run ''https://example.org/v'' (Inr None) = Inl TypeError
   \<and> run ''https://example.org/v'' (Inr None) \<noteq> Inl (YoutubeDLCLIExecError ''https://example.org/v'')"
  by (simp add: run_def trim_def isWhiteSpace_def split_lines_def)

text \<open>
  C10.  For every URL, \<^verbatim>\<open>getInfo\<close> answers \<^verbatim>\<open>undefined\<close> whenever \<^verbatim>\<open>run\<close> throws
  (an exec, retcode or crash error, or any other) and whenever \<^verbatim>\<open>run\<close> returns no
  data; the only exception that leaves \<^verbatim>\<open>getInfo\<close> is the \<^verbatim>\<open>SyntaxError\<close> of
  \<^verbatim>\<open>JSON.parse\<close>, never a typed subprocess error; and \<^verbatim>\<open>getInfoForDownload\<close>, once
  it holds the binary, turns the \<^verbatim>\<open>undefined\<close> answer into a \<^verbatim>\<open>YoutubeDLNoInfoError\<close>
  for the URL.
\<close>

theorem getInfo_swallows_run_errors:
  "(\<forall>e. run url subProcess = Inl e \<longrightarrow> getInfo JSON_parse url subProcess = Inr Undefined)
   \<and> (run url subProcess = Inr None \<longrightarrow> getInfo JSON_parse url subProcess = Inr Undefined)
   \<and> (\<forall>e. getInfo JSON_parse url subProcess = Inl e \<longrightarrow> e = SyntaxError)
   \<and> (getInfo JSON_parse url subProcess = Inr Undefined \<longrightarrow>
        getInfoForDownload None JSON_parse truthy builder_getInfo url subProcess
          = Inl (YoutubeDLNoInfoError url))"
proof -
  have p: "parse_all JSON_parse ds = Inl e \<Longrightarrow> e = SyntaxError" for ds e
    by (induction ds) (auto split: option.splits sum.splits)
  show ?thesis
    by (auto simp: getInfo_def getInfoForDownload_def falsy_def
             split: sum.splits option.splits dest: p)
qed

theorem getInfo_swallows_run_errors_witness:
  "run ''https://example.org/v'' (Inr (Some \<lparr>exitCode = 1, stdout = [], stderr = ''ERROR''\<rparr>))
     = Inl (YoutubeDLCLIRetCodeError 1 ''https://example.org/v'')
   \<and> getInfo (\<lambda>d. Some d) ''https://example.org/v''
        (Inr (Some \<lparr>exitCode = 1, stdout = [], stderr = ''ERROR''\<rparr>)) = Inr Undefined
   \<and> getInfoForDownload None (\<lambda>d. Some d) (\<lambda>j. True)
        (\<lambda>info. \<lparr>timestamp = None, release_timestamp = None, webpageUrl = None, isLive = None,
                  formats = ([] :: nat list), originallyPublishedAtWithoutTime = None,
                  originallyPublishedAt = None\<rparr>)
        ''https://example.org/v'' (Inr (Some \<lparr>exitCode = 1, stdout = [], stderr = ''ERROR''\<rparr>))
       = Inl (YoutubeDLNoInfoError ''https://example.org/v'')"
  using getInfo_swallows_run_errors [of "''https://example.org/v''"
      "Inr (Some \<lparr>exitCode = 1, stdout = [], stderr = ''ERROR''\<rparr>)" "\<lambda>d. Some d" "\<lambda>j. True"
      "\<lambda>info. \<lparr>timestamp = None, release_timestamp = None, webpageUrl = None, isLive = None,
                  formats = ([] :: nat list), originallyPublishedAtWithoutTime = None,
                  originallyPublishedAt = None\<rparr>"]
  by (auto simp: run_def)

subsection \<open>Channel synchronization\<close>

text \<open>
  A run can meet zero candidates: \<^verbatim>\<open>getInfoForListImport\<close> throws on an empty listing,
  and answers the empty list when every entry of a listing is still to be released.
\<close>

lemma getInfoForListImport_empty_listing:
  "getInfoForListImport None builder_getList inspect now url (Inr (Many []))
     = Inl (Error (''YoutubeDL could not get info from '' @ url))"
  by (simp add: getInfoForListImport_def)

lemma getInfoForListImport_zero_candidates:
  assumes "list \<noteq> []"
    and "\<forall>item \<in> set (builder_getList list). \<exists>r. release_timestamp item = Some r \<and> now < r"
  shows "getInfoForListImport None builder_getList inspect now url (Inr (Many list)) = Inr []"
proof -
  have "filterUnavailable now (builder_getList list) = []"
    using assms(2) by (auto simp: filterUnavailable_def filter_empty_conv Let_def)
  with assms(1) show ?thesis by (simp add: getInfoForListImport_def)
qed

lemma safeGet_binary_present: "safeGet True ensureDir = None"
  by (simp add: safeGet_def)

lemma build_children_all_skipped:
  "\<forall>e \<in> set entries. skipImport_part_001 c (entry_webpageUrl e) onlyAfter = Inr True \<Longrightarrow>
     build_children c user onlyAfter entries children = Inr children"
  by (induction entries) simp_all

lemma build_jobs_all_skipped:
  "\<forall>u \<in> set targetUrls. skipImport c u onlyAfter \<noteq> Inr False \<Longrightarrow>
     build_jobs c user onlyAfter targetUrls jobs = Inr jobs"
  by (induction targetUrls) (auto split: sum.splits bool.splits)

text \<open>
  In server/lib/sync-channel.ts a run whose candidates are all passed over submits
  nothing, whatever \<^verbatim>\<open>logger.warning\<close> does: where the call returns the session stays
  PROCESSING, and where it throws the run ends in the \<^verbatim>\<open>catch\<close> block and the session
  is FAILED.
\<close>

lemma synchronizeChannel_all_skipped_submits_nothing:
  assumes "loadByChannelActorId c = Inr user"
    and "getInfoForListImport_outcome c = Inr targetUrls" and "targetUrls \<noteq> []"
    and "\<forall>u \<in> set targetUrls. skipImport c u onlyAfter \<noteq> Inr False"
    and "channelSync w = Some cs" and "\<forall>s. save c s = None"
  shows "jobQueue (snd (synchronizeChannel c onlyAfter w)) = jobQueue w"
    and "map_option state (channelSync (snd (synchronizeChannel c onlyAfter w)))
           = Some (if logger_warning c = None then PROCESSING else FAILED)"
proof -
  have "build_jobs c user onlyAfter targetUrls [] = Inr []"
    using assms(4) by (rule build_jobs_all_skipped)
  with assms show "jobQueue (snd (synchronizeChannel c onlyAfter w)) = jobQueue w"
    and "map_option state (channelSync (snd (synchronizeChannel c onlyAfter w)))
           = Some (if logger_warning c = None then PROCESSING else FAILED)"
    by (auto simp: synchronizeChannel_def mark_processing_def save_channelSync_def try_block_def
          catch_block_def split: option.splits)
qed

text \<open>
  C2 (as the code has it).  For every channel sync run, in either file, in which the
  candidate list is resolved with zero candidates, no job at all is submitted to the job
  queue, not even the parent: with a supplied session the run itself sets the session to
  SYNCED and saves it (persistence succeeding), and without one it returns with nothing
  changed.  In the file unnamed/part_001, when there are candidates and every one is
  skipped, the parent \<^verbatim>\<open>after-video-channel-import\<close> job is still submitted, with no
  children and the id of the supplied session, which stays PROCESSING for that job to
  resolve.
\<close>

theorem synchronizeChannel_no_children:
  "(loadByChannelActorId c = Inr user \<and> getInfoForListImport_outcome c = Inr []
      \<and> channelSync w = Some cs \<and> (\<forall>s. save c s = None) \<longrightarrow>
        synchronizeChannel c onlyAfter w =
          (None, w\<lparr>channelSync := Some (cs\<lparr>state := SYNCED, lastSyncAt := Some (newDate c)\<rparr>),
                   saved := saved w @ [cs\<lparr>state := PROCESSING, lastSyncAt := Some (newDate c)\<rparr>,
                                      cs\<lparr>state := SYNCED, lastSyncAt := Some (newDate c)\<rparr>]\<rparr>))
   \<and> (loadByChannelActorId c1 = Inr user \<and> getInfoForListImport_outcome c1 = Inr []
      \<and> channelSync w = Some cs \<and> (\<forall>s. save c1 s = None) \<longrightarrow>
        synchronizeChannel_part_001 c1 onlyAfter w =
          (None, w\<lparr>channelSync := Some (cs\<lparr>state := SYNCED, lastSyncAt := Some (newDate c1)\<rparr>),
                   saved := saved w @ [cs\<lparr>state := PROCESSING, lastSyncAt := Some (newDate c1)\<rparr>,
                                      cs\<lparr>state := SYNCED, lastSyncAt := Some (newDate c1)\<rparr>]\<rparr>))
   \<and> (loadByChannelActorId c = Inr user \<and> getInfoForListImport_outcome c = Inr []
      \<and> channelSync w0 = None \<longrightarrow>
        synchronizeChannel c onlyAfter w0 = (None, w0))
   \<and> (loadByChannelActorId c1 = Inr user \<and> getInfoForListImport_outcome c1 = Inr []
      \<and> channelSync w0 = None \<longrightarrow>
        synchronizeChannel_part_001 c1 onlyAfter w0 = (None, w0))
   \<and> (loadByChannelActorId c2 = Inr user \<and> getInfoForListImport_outcome c2 = Inr entries
      \<and> entries \<noteq> []
      \<and> (\<forall>e \<in> set entries. skipImport_part_001 c2 (entry_webpageUrl e) onlyAfter = Inr True)
      \<and> channelSync w = Some cs \<and> (\<forall>s. save c2 s = None)
      \<and> createJobWithChildren c2 (AfterVideoChannelImport (Some (sync_id cs))) [] = None \<longrightarrow>
        synchronizeChannel_part_001 c2 onlyAfter w =
          (None, w\<lparr>channelSync := Some (cs\<lparr>state := PROCESSING, lastSyncAt := Some (newDate c2)\<rparr>),
                   saved := saved w @ [cs\<lparr>state := PROCESSING, lastSyncAt := Some (newDate c2)\<rparr>],
                   jobQueue := jobQueue w @ [(AfterVideoChannelImport (Some (sync_id cs)), [])]\<rparr>))"
proof (intro conjI impI)
  assume "loadByChannelActorId c = Inr user \<and> getInfoForListImport_outcome c = Inr []
      \<and> channelSync w = Some cs \<and> (\<forall>s. save c s = None)"
  then show "synchronizeChannel c onlyAfter w =
          (None, w\<lparr>channelSync := Some (cs\<lparr>state := SYNCED, lastSyncAt := Some (newDate c)\<rparr>),
                   saved := saved w @ [cs\<lparr>state := PROCESSING, lastSyncAt := Some (newDate c)\<rparr>,
                                      cs\<lparr>state := SYNCED, lastSyncAt := Some (newDate c)\<rparr>]\<rparr>)"
    by (simp add: synchronizeChannel_def mark_processing_def save_channelSync_def try_block_def
          mark_synced_def)
next
  assume "loadByChannelActorId c1 = Inr user \<and> getInfoForListImport_outcome c1 = Inr []
      \<and> channelSync w = Some cs \<and> (\<forall>s. save c1 s = None)"
  then show "synchronizeChannel_part_001 c1 onlyAfter w =
          (None, w\<lparr>channelSync := Some (cs\<lparr>state := SYNCED, lastSyncAt := Some (newDate c1)\<rparr>),
                   saved := saved w @ [cs\<lparr>state := PROCESSING, lastSyncAt := Some (newDate c1)\<rparr>,
                                      cs\<lparr>state := SYNCED, lastSyncAt := Some (newDate c1)\<rparr>]\<rparr>)"
    by (simp add: synchronizeChannel_part_001_def mark_processing_def save_channelSync_def
          try_block_part_001_def mark_synced_def)
next
  assume "loadByChannelActorId c = Inr user \<and> getInfoForListImport_outcome c = Inr []
      \<and> channelSync w0 = None"
  then show "synchronizeChannel c onlyAfter w0 = (None, w0)"
    by (simp add: synchronizeChannel_def mark_processing_def try_block_def mark_synced_def)
next
  assume "loadByChannelActorId c1 = Inr user \<and> getInfoForListImport_outcome c1 = Inr []
      \<and> channelSync w0 = None"
  then show "synchronizeChannel_part_001 c1 onlyAfter w0 = (None, w0)"
    by (simp add: synchronizeChannel_part_001_def mark_processing_def try_block_part_001_def
          mark_synced_def)
next
  assume a: "loadByChannelActorId c2 = Inr user \<and> getInfoForListImport_outcome c2 = Inr entries
      \<and> entries \<noteq> []
      \<and> (\<forall>e \<in> set entries. skipImport_part_001 c2 (entry_webpageUrl e) onlyAfter = Inr True)
      \<and> channelSync w = Some cs \<and> (\<forall>s. save c2 s = None)
      \<and> createJobWithChildren c2 (AfterVideoChannelImport (Some (sync_id cs))) [] = None"
  then have "build_children c2 user onlyAfter entries [] = Inr []"
    by (simp add: build_children_all_skipped)
  with a show "synchronizeChannel_part_001 c2 onlyAfter w =
          (None, w\<lparr>channelSync := Some (cs\<lparr>state := PROCESSING, lastSyncAt := Some (newDate c2)\<rparr>),
                   saved := saved w @ [cs\<lparr>state := PROCESSING, lastSyncAt := Some (newDate c2)\<rparr>],
                   jobQueue := jobQueue w @ [(AfterVideoChannelImport (Some (sync_id cs)), [])]\<rparr>)"
    by (simp add: synchronizeChannel_part_001_def mark_processing_def save_channelSync_def
          try_block_part_001_def submit_def)
qed

theorem synchronizeChannel_no_children_witness:
  "let c = \<lparr>newDate = 1700000000000, save = (\<lambda>s. None), loadByChannelActorId = Inr (1 :: nat),
             getInfoForListImport_outcome = Inr [] :: exn + string list,
             urlAlreadyImported = (\<lambda>u. Inr True),
             getInfoForDownload_outcome = (\<lambda>u. Inl (Failure 2) :: exn + nat YoutubeDLInfo),
             buildYoutubeDLImport = (\<lambda>user u override. Inr u),
             createJobWithChildren = (\<lambda>parent children. None), setHours0 = (\<lambda>d. d),
             logger_warning = Some TypeError\<rparr>;
       c1 = \<lparr>newDate = 1700000000000, save = (\<lambda>s. None), loadByChannelActorId = Inr (1 :: nat),
             getInfoForListImport_outcome = Inr [] :: exn + list_entry list,
             urlAlreadyImported = (\<lambda>u. Inr True),
             getInfoForDownload_outcome = (\<lambda>u. Inl (Failure 2) :: exn + nat YoutubeDLInfo),
             buildYoutubeDLImport = (\<lambda>user u override. Inr u),
             createJobWithChildren = (\<lambda>parent children. None), setHours0 = (\<lambda>d. d),
             logger_warning = Some TypeError\<rparr>;
       c2 = \<lparr>newDate = 1700000000000, save = (\<lambda>s. None), loadByChannelActorId = Inr (1 :: nat),
             getInfoForListImport_outcome = Inr [\<lparr>entry_webpageUrl = ''https://example.org/watch?v=a'',
                     entry_originallyPublishedAt = None\<rparr>],
             urlAlreadyImported = (\<lambda>u. Inr True),
             getInfoForDownload_outcome = (\<lambda>u. Inl (Failure 2) :: exn + nat YoutubeDLInfo),
             buildYoutubeDLImport = (\<lambda>user u override. Inr u),
             createJobWithChildren = (\<lambda>parent children. None), setHours0 = (\<lambda>d. d),
             logger_warning = Some TypeError\<rparr>;
       w = \<lparr>channelSync = Some \<lparr>sync_id = 7, state = PENDING, lastSyncAt = None\<rparr>,
            saved = [], jobQueue = []\<rparr>;
       w0 = \<lparr>channelSync = None, saved = [], jobQueue = []\<rparr>
   in synchronizeChannel c None w
        = (None, \<lparr>channelSync = Some \<lparr>sync_id = 7, state = SYNCED, lastSyncAt = Some 1700000000000\<rparr>,
                  saved = [\<lparr>sync_id = 7, state = PROCESSING, lastSyncAt = Some 1700000000000\<rparr>,
                           \<lparr>sync_id = 7, state = SYNCED, lastSyncAt = Some 1700000000000\<rparr>],
                  jobQueue = []\<rparr>)
      \<and> synchronizeChannel_part_001 c1 None w = synchronizeChannel c None w
      \<and> synchronizeChannel c None w0 = (None, w0)
      \<and> synchronizeChannel_part_001 c1 None w0 = (None, w0)
      \<and> synchronizeChannel_part_001 c2 None w
        = (None, \<lparr>channelSync = Some \<lparr>sync_id = 7, state = PROCESSING, lastSyncAt = Some 1700000000000\<rparr>,
                  saved = [\<lparr>sync_id = 7, state = PROCESSING, lastSyncAt = Some 1700000000000\<rparr>],
                  jobQueue = [(AfterVideoChannelImport (Some 7), [])]\<rparr>)"
  unfolding Let_def
  using synchronizeChannel_no_children
    [of "\<lparr>newDate = 1700000000000, save = (\<lambda>s. None), loadByChannelActorId = Inr (1 :: nat),
             getInfoForListImport_outcome = Inr [] :: exn + string list,
             urlAlreadyImported = (\<lambda>u. Inr True),
             getInfoForDownload_outcome = (\<lambda>u. Inl (Failure 2) :: exn + nat YoutubeDLInfo),
             buildYoutubeDLImport = (\<lambda>user u override. Inr u),
             createJobWithChildren = (\<lambda>parent children. None), setHours0 = (\<lambda>d. d),
             logger_warning = Some TypeError\<rparr>"
        1
        "\<lparr>channelSync = Some \<lparr>sync_id = 7, state = PENDING, lastSyncAt = None\<rparr>,
            saved = [], jobQueue = []\<rparr>"
        "\<lparr>sync_id = 7, state = PENDING, lastSyncAt = None\<rparr>"
        None
        "\<lparr>newDate = 1700000000000, save = (\<lambda>s. None), loadByChannelActorId = Inr (1 :: nat),
             getInfoForListImport_outcome = Inr [] :: exn + list_entry list,
             urlAlreadyImported = (\<lambda>u. Inr True),
             getInfoForDownload_outcome = (\<lambda>u. Inl (Failure 2) :: exn + nat YoutubeDLInfo),
             buildYoutubeDLImport = (\<lambda>user u override. Inr u),
             createJobWithChildren = (\<lambda>parent children. None), setHours0 = (\<lambda>d. d),
             logger_warning = Some TypeError\<rparr>"
        "\<lparr>channelSync = None, saved = [], jobQueue = []\<rparr>"
        "\<lparr>newDate = 1700000000000, save = (\<lambda>s. None), loadByChannelActorId = Inr (1 :: nat),
             getInfoForListImport_outcome = Inr [\<lparr>entry_webpageUrl = ''https://example.org/watch?v=a'',
                     entry_originallyPublishedAt = None\<rparr>],
             urlAlreadyImported = (\<lambda>u. Inr True),
             getInfoForDownload_outcome = (\<lambda>u. Inl (Failure 2) :: exn + nat YoutubeDLInfo),
             buildYoutubeDLImport = (\<lambda>user u override. Inr u),
             createJobWithChildren = (\<lambda>parent children. None), setHours0 = (\<lambda>d. d),
             logger_warning = Some TypeError\<rparr>"
        "[\<lparr>entry_webpageUrl = ''https://example.org/watch?v=a'',
                     entry_originallyPublishedAt = None\<rparr>]"]
  by (simp add: skipImport_part_001_def)

text \<open>
  The claim as stated fails for zero candidates, in both files: the run marks the
  session SYNCED itself and returns with an empty job queue, the parent job never
  submitted.
\<close>

theorem synchronizeChannel_no_children_counterexample:
  "let c = \<lparr>newDate = 1700000000000, save = (\<lambda>s. None), loadByChannelActorId = Inr (1 :: nat),
             getInfoForListImport_outcome = Inr [] :: exn + string list,
             urlAlreadyImported = (\<lambda>u. Inr True),
             getInfoForDownload_outcome = (\<lambda>u. Inl (Failure 2) :: exn + nat YoutubeDLInfo),
             buildYoutubeDLImport = (\<lambda>user u override. Inr u),
             createJobWithChildren = (\<lambda>parent children. None), setHours0 = (\<lambda>d. d),
             logger_warning = Some TypeError\<rparr>;
       c1 = \<lparr>newDate = 1700000000000, save = (\<lambda>s. None), loadByChannelActorId = Inr (1 :: nat),
             getInfoForListImport_outcome = Inr [] :: exn + list_entry list,
             urlAlreadyImported = (\<lambda>u. Inr True),
             getInfoForDownload_outcome = (\<lambda>u. Inl (Failure 2) :: exn + nat YoutubeDLInfo),
             buildYoutubeDLImport = (\<lambda>user u override. Inr u),
             createJobWithChildren = (\<lambda>parent children. None), setHours0 = (\<lambda>d. d),
             logger_warning = Some TypeError\<rparr>;
       w = \<lparr>channelSync = Some \<lparr>sync_id = 7, state = PENDING, lastSyncAt = None\<rparr>,
            saved = [], jobQueue = []\<rparr>
   in synchronizeChannel c None w
        = (None, \<lparr>channelSync = Some \<lparr>sync_id = 7, state = SYNCED, lastSyncAt = Some 1700000000000\<rparr>,
                  saved = [\<lparr>sync_id = 7, state = PROCESSING, lastSyncAt = Some 1700000000000\<rparr>,
                           \<lparr>sync_id = 7, state = SYNCED, lastSyncAt = Some 1700000000000\<rparr>],
                  jobQueue = []\<rparr>)
      \<and> jobQueue (snd (synchronizeChannel c None w)) = []
      \<and> synchronizeChannel_part_001 c1 None w = synchronizeChannel c None w
      \<and> jobQueue (snd (synchronizeChannel_part_001 c1 None w)) = []"
  by (simp add: synchronizeChannel_def synchronizeChannel_part_001_def mark_processing_def
        save_channelSync_def try_block_def try_block_part_001_def mark_synced_def)

lemma mark_synced_thrown:
  "fst (mark_synced c w) = Some err \<Longrightarrow> channelSync w = Some cs \<Longrightarrow>
     snd (mark_synced c w) = w\<lparr>channelSync := Some (cs\<lparr>state := SYNCED\<rparr>)\<rparr>"
  by (auto simp: mark_synced_def save_channelSync_def split: option.splits)

lemma submit_thrown: "fst (submit c children w) = Some err \<Longrightarrow> snd (submit c children w) = w"
  by (auto simp: submit_def Let_def split: option.splits)

lemma try_block_thrown:
  assumes "fst (try_block c onlyAfter w) = Some err" and "channelSync w = Some cs"
  shows "snd (try_block c onlyAfter w) = w
       \<or> snd (try_block c onlyAfter w) = w\<lparr>channelSync := Some (cs\<lparr>state := SYNCED\<rparr>)\<rparr>"
  using assms mark_synced_thrown [of c w err cs] submit_thrown [of c _ w err]
  by (auto simp: try_block_def split: sum.splits if_splits option.splits)

lemma try_block_part_001_thrown:
  assumes "fst (try_block_part_001 c onlyAfter w) = Some err" and "channelSync w = Some cs"
  shows "snd (try_block_part_001 c onlyAfter w) = w
       \<or> snd (try_block_part_001 c onlyAfter w) = w\<lparr>channelSync := Some (cs\<lparr>state := SYNCED\<rparr>)\<rparr>"
  using assms mark_synced_thrown [of c w err cs] submit_thrown [of c _ w err]
  by (auto simp: try_block_part_001_def split: sum.splits if_splits)

lemma catch_block_session:
  assumes "channelSync w = Some cs"
  shows "channelSync (snd (catch_block c err w)) = Some (cs\<lparr>state := FAILED\<rparr>)"
    and "save c (cs\<lparr>state := FAILED\<rparr>) = None \<Longrightarrow>
           catch_block c err w =
             (None, w\<lparr>channelSync := Some (cs\<lparr>state := FAILED\<rparr>),
                       saved := saved w @ [cs\<lparr>state := FAILED\<rparr>]\<rparr>)"
    and "save c (cs\<lparr>state := FAILED\<rparr>) = Some e \<Longrightarrow>
           catch_block c err w = (Some e, w\<lparr>channelSync := Some (cs\<lparr>state := FAILED\<rparr>)\<rparr>)"
  using assms by (simp_all add: catch_block_def save_channelSync_def split: option.splits)

lemma mark_processing_ok:
  assumes "channelSync w = Some cs" and "fst (mark_processing c w) = None"
  shows "snd (mark_processing c w) =
           w\<lparr>channelSync := Some (cs\<lparr>state := PROCESSING, lastSyncAt := Some (newDate c)\<rparr>),
             saved := saved w @ [cs\<lparr>state := PROCESSING, lastSyncAt := Some (newDate c)\<rparr>]\<rparr>"
  using assms by (auto simp: mark_processing_def save_channelSync_def split: option.splits)


text \<open>
  With a supplied session whose PROCESSING mark was saved, in either file: if an
  exception escapes the \<^verbatim>\<open>try\<close> (candidate resolution, job building or job
  submission), the session state is set to FAILED, and the session is saved in that
  state and the run returns normally wherever that save succeeds.
\<close>

lemma synchronizeChannel_marks_failed:
  assumes "channelSync w = Some cs" and "fst (mark_processing c w) = None"
    and "fst (try_block c onlyAfter (snd (mark_processing c w))) = Some err"
  shows "channelSync (snd (synchronizeChannel c onlyAfter w))
          = Some (cs\<lparr>state := FAILED, lastSyncAt := Some (newDate c)\<rparr>)"
    and "save c (cs\<lparr>state := FAILED, lastSyncAt := Some (newDate c)\<rparr>) = None \<Longrightarrow>
           fst (synchronizeChannel c onlyAfter w) = None
           \<and> last (saved (snd (synchronizeChannel c onlyAfter w)))
               = cs\<lparr>state := FAILED, lastSyncAt := Some (newDate c)\<rparr>"
proof -
  define cs1 where "cs1 = cs\<lparr>state := PROCESSING, lastSyncAt := Some (newDate c)\<rparr>"
  define w1 where "w1 = snd (mark_processing c w)"
  define w2 where "w2 = snd (try_block c onlyAfter w1)"
  have mp: "mark_processing c w = (None, w1)"
    using assms by (simp add: w1_def prod_eq_iff)
  have w1: "channelSync w1 = Some cs1"
    using mark_processing_ok [of w cs c] assms by (simp add: w1_def cs1_def)
  have tb: "try_block c onlyAfter w1 = (Some err, w2)"
    using assms by (simp add: w1_def w2_def prod_eq_iff)
  have "w2 = w1 \<or> w2 = w1\<lparr>channelSync := Some (cs1\<lparr>state := SYNCED\<rparr>)\<rparr>"
    using try_block_thrown [of c onlyAfter w1 err cs1] assms w1 by (simp add: w1_def w2_def)
  then obtain cs2 where w2: "channelSync w2 = Some cs2"
    and cs2: "cs2\<lparr>state := FAILED\<rparr> = cs\<lparr>state := FAILED, lastSyncAt := Some (newDate c)\<rparr>"
    using w1 by (auto simp: cs1_def)
  have sc: "synchronizeChannel c onlyAfter w = catch_block c err w2"
    by (simp add: synchronizeChannel_def mp tb)
  show "channelSync (snd (synchronizeChannel c onlyAfter w))
          = Some (cs\<lparr>state := FAILED, lastSyncAt := Some (newDate c)\<rparr>)"
    unfolding sc using catch_block_session(1) [OF w2, of c err] cs2 by simp
  assume "save c (cs\<lparr>state := FAILED, lastSyncAt := Some (newDate c)\<rparr>) = None"
  then have "catch_block c err w2 =
             (None, w2\<lparr>channelSync := Some (cs2\<lparr>state := FAILED\<rparr>),
                       saved := saved w2 @ [cs2\<lparr>state := FAILED\<rparr>]\<rparr>)"
    using catch_block_session(2) [OF w2, of c err] cs2 by simp
  then show "fst (synchronizeChannel c onlyAfter w) = None
           \<and> last (saved (snd (synchronizeChannel c onlyAfter w)))
               = cs\<lparr>state := FAILED, lastSyncAt := Some (newDate c)\<rparr>"
    unfolding sc using cs2 by simp
qed

lemma synchronizeChannel_part_001_marks_failed:
  assumes "channelSync w = Some cs" and "fst (mark_processing c w) = None"
    and "fst (try_block_part_001 c onlyAfter (snd (mark_processing c w))) = Some err"
  shows "channelSync (snd (synchronizeChannel_part_001 c onlyAfter w))
          = Some (cs\<lparr>state := FAILED, lastSyncAt := Some (newDate c)\<rparr>)"
    and "save c (cs\<lparr>state := FAILED, lastSyncAt := Some (newDate c)\<rparr>) = None \<Longrightarrow>
           fst (synchronizeChannel_part_001 c onlyAfter w) = None
           \<and> last (saved (snd (synchronizeChannel_part_001 c onlyAfter w)))
               = cs\<lparr>state := FAILED, lastSyncAt := Some (newDate c)\<rparr>"
proof -
  define cs1 where "cs1 = cs\<lparr>state := PROCESSING, lastSyncAt := Some (newDate c)\<rparr>"
  define w1 where "w1 = snd (mark_processing c w)"
  define w2 where "w2 = snd (try_block_part_001 c onlyAfter w1)"
  have mp: "mark_processing c w = (None, w1)"
    using assms by (simp add: w1_def prod_eq_iff)
  have w1: "channelSync w1 = Some cs1"
    using mark_processing_ok [of w cs c] assms by (simp add: w1_def cs1_def)
  have tb: "try_block_part_001 c onlyAfter w1 = (Some err, w2)"
    using assms by (simp add: w1_def w2_def prod_eq_iff)
  have "w2 = w1 \<or> w2 = w1\<lparr>channelSync := Some (cs1\<lparr>state := SYNCED\<rparr>)\<rparr>"
    using try_block_part_001_thrown [of c onlyAfter w1 err cs1] assms w1
    by (simp add: w1_def w2_def)
  then obtain cs2 where w2: "channelSync w2 = Some cs2"
    and cs2: "cs2\<lparr>state := FAILED\<rparr> = cs\<lparr>state := FAILED, lastSyncAt := Some (newDate c)\<rparr>"
    using w1 by (auto simp: cs1_def)
  have sc: "synchronizeChannel_part_001 c onlyAfter w = catch_block c err w2"
    by (simp add: synchronizeChannel_part_001_def mp tb)
  show "channelSync (snd (synchronizeChannel_part_001 c onlyAfter w))
          = Some (cs\<lparr>state := FAILED, lastSyncAt := Some (newDate c)\<rparr>)"
    unfolding sc using catch_block_session(1) [OF w2, of c err] cs2 by simp
  assume "save c (cs\<lparr>state := FAILED, lastSyncAt := Some (newDate c)\<rparr>) = None"
  then have "catch_block c err w2 =
             (None, w2\<lparr>channelSync := Some (cs2\<lparr>state := FAILED\<rparr>),
                       saved := saved w2 @ [cs2\<lparr>state := FAILED\<rparr>]\<rparr>)"
    using catch_block_session(2) [OF w2, of c err] cs2 by simp
  then show "fst (synchronizeChannel_part_001 c onlyAfter w) = None
           \<and> last (saved (snd (synchronizeChannel_part_001 c onlyAfter w)))
               = cs\<lparr>state := FAILED, lastSyncAt := Some (newDate c)\<rparr>"
    unfolding sc using cs2 by simp
qed

text \<open>The same at a concrete run with a session, whose listing throws \<open>Failure 1\<close>.\<close>

lemma synchronizeChannel_marks_failed_example:
  "let c = \<lparr>newDate = 1700000000000, save = (\<lambda>s. None), loadByChannelActorId = Inr (1 :: nat),
             getInfoForListImport_outcome = Inl (Failure 1) :: exn + string list,
             urlAlreadyImported = (\<lambda>u. Inr False),
             getInfoForDownload_outcome = (\<lambda>u. Inl (Failure 2) :: exn + nat YoutubeDLInfo),
             buildYoutubeDLImport = (\<lambda>user u override. Inr u),
             createJobWithChildren = (\<lambda>parent children. None), setHours0 = (\<lambda>d. d),
             logger_warning = Some TypeError\<rparr>;
       c1 = \<lparr>newDate = 1700000000000, save = (\<lambda>s. None), loadByChannelActorId = Inr (1 :: nat),
             getInfoForListImport_outcome = Inl (Failure 1) :: exn + list_entry list,
             urlAlreadyImported = (\<lambda>u. Inr False),
             getInfoForDownload_outcome = (\<lambda>u. Inl (Failure 2) :: exn + nat YoutubeDLInfo),
             buildYoutubeDLImport = (\<lambda>user u override. Inr u),
             createJobWithChildren = (\<lambda>parent children. None), setHours0 = (\<lambda>d. d),
             logger_warning = Some TypeError\<rparr>;
       w = \<lparr>channelSync = Some \<lparr>sync_id = 7, state = PENDING, lastSyncAt = None\<rparr>,
            saved = [], jobQueue = []\<rparr>
   in synchronizeChannel c None w
        = (None, \<lparr>channelSync = Some \<lparr>sync_id = 7, state = FAILED, lastSyncAt = Some 1700000000000\<rparr>,
                  saved = [\<lparr>sync_id = 7, state = PROCESSING, lastSyncAt = Some 1700000000000\<rparr>,
                           \<lparr>sync_id = 7, state = FAILED, lastSyncAt = Some 1700000000000\<rparr>],
                  jobQueue = []\<rparr>)
      \<and> synchronizeChannel_part_001 c1 None w = synchronizeChannel c None w"
  by (simp add: synchronizeChannel_def synchronizeChannel_part_001_def mark_processing_def
        try_block_def try_block_part_001_def catch_block_def save_channelSync_def)

text \<open>
  C3.  The claim holds for a supplied session (the two lemmas above) and fails on the
  code for a run without one.  At the run evaluated here no session is supplied and the
  listing throws \<open>Failure 1\<close> inside the \<^verbatim>\<open>try\<close>: the \<^verbatim>\<open>catch\<close> block, which assigns
  \<^verbatim>\<open>channelSync.state\<close> with no test of the session, fails with a \<^verbatim>\<open>TypeError\<close>, and
  that, not the error that escaped, is what the caller receives, in both files.
\<close>

theorem synchronizeChannel_no_session_loses_error:
  "let c = \<lparr>newDate = 1700000000000, save = (\<lambda>s. None), loadByChannelActorId = Inr (1 :: nat),
             getInfoForListImport_outcome = Inl (Failure 1) :: exn + string list,
             urlAlreadyImported = (\<lambda>u. Inr False),
             getInfoForDownload_outcome = (\<lambda>u. Inl (Failure 2) :: exn + nat YoutubeDLInfo),
             buildYoutubeDLImport = (\<lambda>user u override. Inr u),
             createJobWithChildren = (\<lambda>parent children. None), setHours0 = (\<lambda>d. d),
             logger_warning = Some TypeError\<rparr>;
       c1 = \<lparr>newDate = 1700000000000, save = (\<lambda>s. None), loadByChannelActorId = Inr (1 :: nat),
             getInfoForListImport_outcome = Inl (Failure 1) :: exn + list_entry list,
             urlAlreadyImported = (\<lambda>u. Inr False),
             getInfoForDownload_outcome = (\<lambda>u. Inl (Failure 2) :: exn + nat YoutubeDLInfo),
             buildYoutubeDLImport = (\<lambda>user u override. Inr u),
             createJobWithChildren = (\<lambda>parent children. None), setHours0 = (\<lambda>d. d),
             logger_warning = Some TypeError\<rparr>;
       w0 = \<lparr>channelSync = None, saved = [], jobQueue = []\<rparr>
   in fst (try_block c None w0) = Some (Failure 1)
      \<and> synchronizeChannel c None w0 = (Some TypeError, w0)
      \<and> fst (synchronizeChannel c None w0) \<noteq> Some (Failure 1)
      \<and> fst (try_block_part_001 c1 None w0) = Some (Failure 1)
      \<and> synchronizeChannel_part_001 c1 None w0 = (Some TypeError, w0)
      \<and> fst (synchronizeChannel_part_001 c1 None w0) \<noteq> Some (Failure 1)"
  by (simp add: synchronizeChannel_def synchronizeChannel_part_001_def mark_processing_def
        try_block_def try_block_part_001_def catch_block_def)

end
